theory Spec2Isabelle
  imports Complex_Main "HOL-Library.Multiset" "HOL-Library.Sublist" "HOL-Library.Product_Lexorder"
    "HOL-Library.List_Lexorder"
begin

section \<open>Movie Rating Analyzer: data model\<close>

text \<open>
  The program is a pandas script. A float64 value is modelled as \<open>NaN\<close>, an infinity or
  a finite value; finite values are exact rationals. The model does no arithmetic on
  them: it compares them and clips them, which float64 does without rounding. pandas
  represents a missing entry of a float64 or object column by the float \<open>NaN\<close>.
\<close>

datatype float64 = NaN | NegInf | Fin rat | PosInf

text \<open>
  A Python \<open>str\<close> is a sequence of Unicode code points; \<open>py\<close> embeds a literal.
  File paths are kept as plain strings.
\<close>

type_synonym pystr = "nat list"

definition py :: "string \<Rightarrow> pystr" where
  "py s = map of_char s"

text \<open>
  One entry of the frame that \<open>pd.read_csv\<close> returns: a str object (object column), an
  int64 or a float64. An int64 and a float64 of the same value differ only in how
  \<open>to_csv\<close> writes them (\<open>8\<close> or \<open>8.0\<close>); the model follows the value. Boolean columns
  are outside the model.
\<close>

datatype cell = Str pystr | IntC int | Flt float64

record raw_frame =
  columns :: "pystr list"
  rows :: "cell list list"

text \<open>
  A row of the frame after line 58 (\<open>df[keep]\<close>) and the coercions of lines 60-67:
  \<open>Title\<close> and \<open>Genre\<close> are object entries (a str or missing), \<open>Rating\<close> is
  float64, \<open>Year\<close> is the nullable \<open>Int64\<close>.
\<close>

record movie =
  Title :: "pystr option"
  Genre :: "pystr option"
  Rating :: float64
  Year :: "int option"

datatype error =
  FileNotFoundError | IsADirectoryError | NotADirectoryError | FileExistsError | OSError
  | ParserError | KeyError | AttributeError | TypeError | OverflowError

text \<open>
  What the source leaves to the installed libraries is a parameter of the model:
  \<^item> \<open>num_str\<close>: Python's \<open>str\<close> of a number (\<open>astype(str)\<close> on a numeric entry);
  \<^item> \<open>na_str\<close>: what \<open>astype(str)\<close> makes of a missing entry: the text \<open>nan\<close> in
    pandas 1.x and 2.x (\<open>Some\<close>), a missing entry again from pandas 3 on (\<open>None\<close>);
  \<^item> \<open>str_to_num\<close>: the parse of one string by \<open>pd.to_numeric(..., errors="coerce")\<close>
    (\<open>NaN\<close> when the string is not a number);
  \<^item> \<open>argsort\<close>: numpy's \<open>argsort\<close> with the default \<open>kind="quicksort"\<close>, which
    returns the positions of its argument in ascending order of value and promises
    nothing about the order of equal values;
  \<^item> \<open>group_mean\<close>: the float64 mean that \<open>groupby(...).mean()\<close> computes of the values
    of one group (a compensated float64 sum divided by the count, each step rounded).
\<close>

record pandas =
  num_str :: "cell \<Rightarrow> pystr"
  na_str :: "pystr option"
  str_to_num :: "pystr \<Rightarrow> float64"
  argsort :: "float64 list \<Rightarrow> nat list"
  group_mean :: "float64 list \<Rightarrow> float64"

section \<open>Python string methods\<close>

text \<open>
  \<open>str.isspace\<close> of one code point, which \<open>str.strip()\<close> uses: the code points of
  general category Zs or of bidirectional class WS, B or S.
\<close>

definition isspace :: "nat \<Rightarrow> bool" where
  "isspace c =
     (c \<in> set [0x09, 0x0A, 0x0B, 0x0C, 0x0D, 0x1C, 0x1D, 0x1E, 0x1F, 0x20, 0x85, 0xA0, 0x1680,
                0x2000, 0x2001, 0x2002, 0x2003, 0x2004, 0x2005, 0x2006, 0x2007, 0x2008, 0x2009,
                0x200A, 0x2028, 0x2029, 0x202F, 0x205F, 0x3000])"

definition strip :: "pystr \<Rightarrow> pystr" where
  "strip s = rev (dropWhile isspace (rev (dropWhile isspace s)))"

text \<open>
  \<open>str.title()\<close>; the flag is Python's \<open>previous_is_cased\<close>. Only the letters A-Z and
  a-z are treated as cased. The program uses \<open>title\<close> to find the columns named Title,
  Genre, Rating and Year, and no letter outside A-Z, a-z is mapped by Python's \<open>title\<close>
  to a letter of these four names, so a header is taken for one of them in the model
  exactly when it is in Python.
\<close>

definition isupper :: "nat \<Rightarrow> bool" where
  "isupper c = (65 \<le> c \<and> c \<le> 90)"

definition islower :: "nat \<Rightarrow> bool" where
  "islower c = (97 \<le> c \<and> c \<le> 122)"

definition toupper :: "nat \<Rightarrow> nat" where
  "toupper c = (if islower c then c - 32 else c)"

definition tolower :: "nat \<Rightarrow> nat" where
  "tolower c = (if isupper c then c + 32 else c)"

fun title_from :: "bool \<Rightarrow> pystr \<Rightarrow> pystr" where
  "title_from prev [] = []"
| "title_from prev (c # cs) =
     (if islower c then (if prev then c else toupper c) # title_from True cs
      else if isupper c then (if prev then tolower c else c) # title_from True cs
      else c # title_from False cs)"

definition title :: "pystr \<Rightarrow> pystr" where
  "title s = title_from False s"

text \<open>\<open>s.split(sep)\<close> for a one-character separator: never the empty list.\<close>

fun split_on :: "nat \<Rightarrow> pystr \<Rightarrow> pystr list" where
  "split_on d [] = [[]]"
| "split_on d (c # cs) =
     (if c = d then [] # split_on d cs
      else (case split_on d cs of [] \<Rightarrow> [[c]] | t # ts \<Rightarrow> (c # t) # ts))"

definition comma :: nat where
  "comma = 44"

section \<open>Files\<close>

text \<open>
  A delimited text file is represented by the table pandas reads from it and writes to
  it (header and typed entries); a chart image by the bars it shows. The file system
  maps a path to a directory or a file.
\<close>

datatype content = Table "pystr list" "cell list list" | Chart "pystr list" "float64 list"

datatype entry = Dir | File content

type_synonym filesystem = "string \<rightharpoonup> entry"

definition read_csv :: "filesystem \<Rightarrow> string \<Rightarrow> error + raw_frame" where
  "read_csv fs path =
     (case fs path of
        None \<Rightarrow> Inl FileNotFoundError
      | Some Dir \<Rightarrow> Inl IsADirectoryError
      | Some (File (Chart _ _)) \<Rightarrow> Inl ParserError
      | Some (File (Table cs rs)) \<Rightarrow> Inr \<lparr>columns = cs, rows = rs\<rparr>)"

section \<open>load_and_clean\<close>

datatype colsel = Absent | One nat | Many

text \<open>
  \<open>df[c]\<close> after line 58: the column named \<open>c\<close>; a frame (\<open>Many\<close>) when the
  normalised header has the name more than once.
\<close>

definition select :: "pystr list \<Rightarrow> pystr \<Rightarrow> colsel" where
  "select cols c =
     (case filter (\<lambda>i. cols ! i = c) [0..<length cols] of
        [] \<Rightarrow> Absent | [i] \<Rightarrow> One i | _ \<Rightarrow> Many)"

text \<open>The entry of a row in a column; \<open>read_csv\<close> fills a short row with \<open>NaN\<close>.\<close>

definition cell_at :: "cell list \<Rightarrow> nat \<Rightarrow> cell" where
  "cell_at r i = (if i < length r then r ! i else Flt NaN)"

text \<open>
  \<open>astype(str)\<close> on one entry (line 62): a str stays, a number becomes Python's
  \<open>str\<close> of it, and a missing entry becomes what the installed pandas makes of it.
\<close>

definition astype_str :: "pandas \<Rightarrow> cell \<Rightarrow> pystr option" where
  "astype_str L c = (case c of Str s \<Rightarrow> Some s | Flt NaN \<Rightarrow> na_str L | _ \<Rightarrow> Some (num_str L c))"

text \<open>\<open>pd.to_numeric(..., errors="coerce")\<close> on one entry.\<close>

definition to_numeric :: "pandas \<Rightarrow> cell \<Rightarrow> float64" where
  "to_numeric L c = (case c of Str s \<Rightarrow> str_to_num L s | IntC i \<Rightarrow> Fin (of_int i) | Flt f \<Rightarrow> f)"

text \<open>
  \<open>.astype("Int64")\<close> on one float64 value: \<open>NaN\<close> becomes \<open><NA>\<close>; an infinity
  raises \<open>OverflowError\<close>; a finite value that is not an integer of the int64 range raises
  \<open>TypeError: cannot safely cast non-equivalent float64 to int64\<close>.
\<close>

definition astype_Int64 :: "float64 \<Rightarrow> error + int option" where
  "astype_Int64 f =
     (case f of
        NaN \<Rightarrow> Inr None
      | Fin r \<Rightarrow> (if of_int \<lfloor>r\<rfloor> = r \<and> - (2 ^ 63) \<le> \<lfloor>r\<rfloor> \<and> \<lfloor>r\<rfloor> < 2 ^ 63
                   then Inr (Some \<lfloor>r\<rfloor>) else Inl TypeError)
      | _ \<Rightarrow> Inl OverflowError)"

definition castable :: "float64 \<Rightarrow> bool" where
  "castable f = (case astype_Int64 f of Inl _ \<Rightarrow> False | Inr _ \<Rightarrow> True)"

definition the_year :: "float64 \<Rightarrow> int option" where
  "the_year f = (case astype_Int64 f of Inl _ \<Rightarrow> None | Inr y \<Rightarrow> y)"

text \<open>
  The cast of the whole Year column (line 67), as pandas' \<open>_coerce_to_data_and_mask\<close>
  does it: it first takes Python's \<open>int\<close> of the largest value that is not \<open>NaN\<close>,
  which raises \<open>OverflowError\<close> when that value is an infinity; then the safe cast raises
  \<open>TypeError\<close> when some value is not an integer of the int64 range.
\<close>

definition cast_error :: "float64 list \<Rightarrow> error option" where
  "cast_error ys =
     (let vals = filter (\<lambda>f. f \<noteq> NaN) ys
      in if vals \<noteq> [] \<and> (PosInf \<in> set vals \<or> list_all (\<lambda>f. f = NegInf) vals)
         then Some OverflowError
         else if list_all castable ys then None else Some TypeError)"

text \<open>Lines 60-67 on one row, the four columns being at positions \<open>t g r y\<close>.\<close>

definition coerce_row :: "pandas \<Rightarrow> nat \<Rightarrow> nat \<Rightarrow> nat \<Rightarrow> nat \<Rightarrow> cell list \<Rightarrow> movie" where
  "coerce_row L t g r y cs =
     \<lparr>Title = map_option strip (astype_str L (cell_at cs t)),
      Genre = map_option strip (astype_str L (cell_at cs g)),
      Rating = to_numeric L (cell_at cs r),
      Year = the_year (to_numeric L (cell_at cs y))\<rparr>"

text \<open>Line 69: \<open>df.dropna(subset=["Title", "Genre", "Rating", "Year"])\<close>.\<close>

definition notna :: "movie \<Rightarrow> bool" where
  "notna m = (Title m \<noteq> None \<and> Genre m \<noteq> None \<and> Rating m \<noteq> NaN \<and> Year m \<noteq> None)"

definition dropna :: "movie list \<Rightarrow> movie list" where
  "dropna df = filter notna df"

text \<open>Line 70: \<open>Series.clip(lower, upper)\<close>; \<open>NaN\<close> stays \<open>NaN\<close>.\<close>

definition clip :: "rat \<Rightarrow> rat \<Rightarrow> float64 \<Rightarrow> float64" where
  "clip lo hi x =
     (case x of NaN \<Rightarrow> NaN | NegInf \<Rightarrow> Fin lo | PosInf \<Rightarrow> Fin hi
      | Fin r \<Rightarrow> Fin (min (max r lo) hi))"

definition clip_rating :: "movie \<Rightarrow> movie" where
  "clip_rating m = m\<lparr>Rating := clip 0 10 (Rating m)\<rparr>"

text \<open>
  Lines 56-69: the frame after \<open>dropna\<close>, before \<open>clip\<close>. The errors come in the
  order of the source: a duplicated text column has no \<open>.str\<close> (line 62),
  \<open>to_numeric\<close> refuses a frame (lines 65, 67), the \<open>Int64\<close> cast checks the whole
  Year column (line 67), and \<open>dropna\<close> raises \<open>KeyError\<close> for a column of its subset
  that is absent (line 69).
\<close>

definition normalise :: "raw_frame \<Rightarrow> pystr list" where
  "normalise df = map (\<lambda>c. title (strip c)) (columns df)"

definition before_clip :: "pandas \<Rightarrow> raw_frame \<Rightarrow> error + movie list" where
  "before_clip L df =
     (let cols = normalise df;
          st = select cols (py ''Title''); sg = select cols (py ''Genre'');
          sr = select cols (py ''Rating''); sy = select cols (py ''Year'')
      in if st = Many \<or> sg = Many then Inl AttributeError
         else if sr = Many \<or> sy = Many then Inl TypeError
         else (case (case sy of One y \<Rightarrow>
                       cast_error (map (\<lambda>cs. to_numeric L (cell_at cs y)) (rows df))
                     | _ \<Rightarrow> None) of
                 Some e \<Rightarrow> Inl e
               | None \<Rightarrow>
                  (case (st, sg, sr, sy) of
                     (One t, One g, One r, One y) \<Rightarrow>
                       Inr (dropna (map (coerce_row L t g r y) (rows df)))
                   | _ \<Rightarrow> Inl KeyError)))"

text \<open>Lines 56-71.\<close>

definition clean :: "pandas \<Rightarrow> raw_frame \<Rightarrow> error + movie list" where
  "clean L df =
     (case before_clip L df of Inl e \<Rightarrow> Inl e | Inr d \<Rightarrow> Inr (map clip_rating d))"

definition load_and_clean :: "pandas \<Rightarrow> filesystem \<Rightarrow> string \<Rightarrow> error + movie list" where
  "load_and_clean L fs path =
     (case read_csv fs path of Inl e \<Rightarrow> Inl e | Inr df \<Rightarrow> clean L df)"

section \<open>explode_genres\<close>

text \<open>\<open>astype(str)\<close> on an object entry (line 77).\<close>

definition obj_str :: "pandas \<Rightarrow> pystr option \<Rightarrow> pystr option" where
  "obj_str L g = (case g of None \<Rightarrow> na_str L | Some s \<Rightarrow> Some s)"

text \<open>
  Line 78: \<open>explode\<close> repeats the row once for each element of its list; a row whose
  entry is missing, not a list, stays as it is.
\<close>

definition explode :: "(movie \<times> pystr list option) list \<Rightarrow> movie list" where
  "explode tmp =
     concat (map (\<lambda>(m, ts). case ts of None \<Rightarrow> [m\<lparr>Genre := None\<rparr>]
                                 | Some l \<Rightarrow> map (\<lambda>t. m\<lparr>Genre := Some t\<rparr>) l) tmp)"

definition explode_genres :: "pandas \<Rightarrow> movie list \<Rightarrow> movie list" where
  "explode_genres L df =
     (let tmp1 = map (\<lambda>m. (m, map_option (split_on comma) (obj_str L (Genre m)))) df;
          tmp2 = explode tmp1;
          tmp3 = map (\<lambda>m. m\<lparr>Genre := map_option strip (Genre m)\<rparr>) tmp2
      in filter (\<lambda>m. Genre m \<noteq> Some []) tmp3)"

section \<open>Sorting\<close>

text \<open>The order of float64 values, as a key into a linear order; \<open>NaN\<close> is kept apart.\<close>

definition asc_key :: "float64 \<Rightarrow> nat \<times> rat" where
  "asc_key x = (case x of NegInf \<Rightarrow> (0, 0) | Fin r \<Rightarrow> (1, r) | PosInf \<Rightarrow> (2, 0) | NaN \<Rightarrow> (3, 0))"

definition desc_key :: "float64 \<Rightarrow> nat \<times> rat" where
  "desc_key x = (case x of PosInf \<Rightarrow> (0, 0) | Fin r \<Rightarrow> (1, - r) | NegInf \<Rightarrow> (2, 0) | NaN \<Rightarrow> (3, 0))"

text \<open>
  What numpy documents of \<open>argsort\<close>: the result lists every position once, in
  ascending order of value. pandas calls it on values without \<open>NaN\<close> only.
\<close>

definition valid_argsort :: "(float64 list \<Rightarrow> nat list) \<Rightarrow> bool" where
  "valid_argsort f =
     (\<forall>ks. NaN \<notin> set ks \<longrightarrow>
        mset (f ks) = mset [0..<length ks] \<and> sorted (map (\<lambda>i. asc_key (ks ! i)) (f ks)))"

text \<open>
  \<open>pandas.core.sorting.nargsort(items, kind="quicksort", ascending=False,
  na_position="last")\<close>, which \<open>sort_values(..., ascending=False)\<close> calls: the values
  without \<open>NaN\<close> are reversed, sorted ascending by \<open>argsort\<close>, and the result reversed
  again; the positions of the \<open>NaN\<close> come last.
\<close>

definition nargsort_desc :: "pandas \<Rightarrow> float64 list \<Rightarrow> nat list" where
  "nargsort_desc L items =
     (let idx = [0..<length items];
          non_nan_idx = rev (filter (\<lambda>i. items ! i \<noteq> NaN) idx);
          non_nans = map (\<lambda>i. items ! i) non_nan_idx;
          nan_idx = filter (\<lambda>i. items ! i = NaN) idx;
          indexer = rev (map (\<lambda>j. non_nan_idx ! j) (argsort L non_nans))
      in indexer @ nan_idx)"

definition sort_values_desc :: "pandas \<Rightarrow> ('a \<Rightarrow> float64) \<Rightarrow> 'a list \<Rightarrow> 'a list" where
  "sort_values_desc L by df = map (\<lambda>i. df ! i) (nargsort_desc L (map by df))"

section \<open>Aggregates\<close>

text \<open>Line 124: the Top-N table, columns Title, Rating, Year.\<close>

definition project3 :: "movie \<Rightarrow> pystr option \<times> float64 \<times> int option" where
  "project3 m = (Title m, Rating m, Year m)"

definition top5 :: "pandas \<Rightarrow> movie list \<Rightarrow> (pystr option \<times> float64 \<times> int option) list" where
  "top5 L df_clean = map project3 (take 5 (sort_values_desc L Rating df_clean))"

text \<open>
  \<open>groupby\<close> with its defaults \<open>sort=True, dropna=True\<close>: the keys of the groups are
  the distinct values of the column that are not missing, in ascending order.
\<close>

definition group_keys :: "'k::linorder option list \<Rightarrow> 'k list" where
  "group_keys ks = sort (remdups (concat (map (\<lambda>k. case k of None \<Rightarrow> [] | Some x \<Rightarrow> [x]) ks)))"

text \<open>Lines 85-89.\<close>

definition genre_avg :: "pandas \<Rightarrow> movie list \<Rightarrow> (pystr \<times> float64) list" where
  "genre_avg L expd =
     sort_values_desc L snd
       (map (\<lambda>g. (g, group_mean L (map Rating (filter (\<lambda>m. Genre m = Some g) expd))))
            (group_keys (map Genre expd)))"

text \<open>
  Line 103. The keys of the groups are distinct, so the frame that \<open>sort_values("Year")\<close>
  returns does not depend on the sorting algorithm.
\<close>

definition per_year :: "movie list \<Rightarrow> (int \<times> nat) list" where
  "per_year df =
     sort_key fst
       (map (\<lambda>y. (y, length (filter (\<lambda>m. Year m = Some y) df))) (group_keys (map Year df)))"

section \<open>Writing files\<close>

text \<open>
  The directory of a path: the text before its last \<open>/\<close>, empty for a path without
  one. The empty directory stands for the working directory (or the root), which exists.
\<close>

definition dirname :: "string \<Rightarrow> string" where
  "dirname p =
     (if CHR ''/'' \<in> set p then rev (tl (dropWhile (\<lambda>c. c \<noteq> CHR ''/'') (rev p))) else [])"

definition parent_is_dir :: "filesystem \<Rightarrow> string \<Rightarrow> bool" where
  "parent_is_dir fs p = (dirname p = [] \<or> fs (dirname p) = Some Dir)"

text \<open>
  \<open>DataFrame.to_csv(path, index=False)\<close>: pandas raises \<open>OSError: Cannot save file
  into a non-existent directory\<close> when the directory of the path is not a directory, and
  opening a directory for writing raises \<open>IsADirectoryError\<close>.
\<close>

definition to_csv :: "filesystem \<Rightarrow> string \<Rightarrow> pystr list \<Rightarrow> cell list list \<Rightarrow> error + filesystem" where
  "to_csv fs path cols rs =
     (if \<not> parent_is_dir fs path then Inl OSError
      else case fs path of
        Some Dir \<Rightarrow> Inl IsADirectoryError
      | _ \<Rightarrow> Inr (fs(path \<mapsto> File (Table cols rs))))"

definition savefig :: "filesystem \<Rightarrow> string \<Rightarrow> pystr list \<Rightarrow> float64 list \<Rightarrow> error + filesystem" where
  "savefig fs path xs hs =
     (if \<not> parent_is_dir fs path then Inl FileNotFoundError
      else case fs path of
        Some Dir \<Rightarrow> Inl IsADirectoryError
      | _ \<Rightarrow> Inr (fs(path \<mapsto> File (Chart xs hs))))"

text \<open>
  \<open>os.makedirs(path, exist_ok=True)\<close>: the directories above the path are made too;
  a file in the way raises.
\<close>

definition ancestors :: "string \<Rightarrow> string list" where
  "ancestors p = filter (\<lambda>d. d \<noteq> []) (map (\<lambda>i. take i p) (filter (\<lambda>i. p ! i = CHR ''/'') [0..<length p]))"

definition makedirs :: "filesystem \<Rightarrow> string \<Rightarrow> error + filesystem" where
  "makedirs fs path =
     (if list_ex (\<lambda>d. case fs d of Some (File _) \<Rightarrow> True | _ \<Rightarrow> False) (ancestors path)
      then Inl NotADirectoryError
      else case fs path of
        Some (File _) \<Rightarrow> Inl FileExistsError
      | _ \<Rightarrow> Inr (foldl (\<lambda>f d. f(d \<mapsto> Dir)) fs (ancestors path @ [path])))"

definition join :: "string \<Rightarrow> string \<Rightarrow> string" where
  "join a b = a @ ''/'' @ b"

definition obj_cell :: "pystr option \<Rightarrow> cell" where
  "obj_cell x = (case x of None \<Rightarrow> Flt NaN | Some s \<Rightarrow> Str s)"

definition Int64_cell :: "int option \<Rightarrow> cell" where
  "Int64_cell x = (case x of None \<Rightarrow> Flt NaN | Some i \<Rightarrow> IntC i)"

definition movie_cells :: "movie \<Rightarrow> cell list" where
  "movie_cells m = [obj_cell (Title m), obj_cell (Genre m), Flt (Rating m), Int64_cell (Year m)]"

definition genre_cells :: "pystr \<times> float64 \<Rightarrow> cell list" where
  "genre_cells r = [Str (fst r), Flt (snd r)]"

definition top5_cells :: "pystr option \<times> float64 \<times> int option \<Rightarrow> cell list" where
  "top5_cells r = (case r of (t, x, y) \<Rightarrow> [obj_cell t, Flt x, Int64_cell y])"

definition year_cells :: "int \<times> nat \<Rightarrow> cell list" where
  "year_cells r = [IntC (fst r), IntC (int (snd r))]"

definition canonical :: "pystr list" where
  "canonical = [py ''Title'', py ''Genre'', py ''Rating'', py ''Year'']"

section \<open>ensure_dataset\<close>

definition sample :: "(string \<times> string \<times> rat \<times> int) list" where
  "sample =
    [(''Inception'', ''Sci-Fi'', 88 / 10, 2010),
     (''Titanic'', ''Romance, Drama'', 78 / 10, 1997),
     (''Interstellar'', ''Sci-Fi, Drama'', 86 / 10, 2014),
     (''The Dark Knight'', ''Action, Crime'', 90 / 10, 2008),
     (''Avengers: Endgame'', ''Action, Superhero'', 84 / 10, 2019),
     (''La La Land'', ''Romance, Musical'', 80 / 10, 2016),
     (''Parasite'', ''Thriller, Drama'', 86 / 10, 2019),
     (''Mad Max: Fury Road'', ''Action, Adventure'', 81 / 10, 2015),
     (''The Godfather'', ''Crime, Drama'', 92 / 10, 1972),
     (''Toy Story 3'', ''Animation, Family'', 83 / 10, 2010),
     (''Whiplash'', ''Drama, Music'', 85 / 10, 2014),
     (''Coco'', ''Animation, Family'', 84 / 10, 2017),
     (''Dangal'', ''Drama, Sport'', 84 / 10, 2016),
     (''3 Idiots'', ''Comedy, Drama'', 84 / 10, 2009),
     (''Joker'', ''Crime, Drama'', 85 / 10, 2019),
     (''The Shawshank Redemption'', ''Drama'', 93 / 10, 1994),
     (''Forrest Gump'', ''Drama, Romance'', 88 / 10, 1994),
     (''RRR'', ''Action, Drama'', 80 / 10, 2022),
     (''K.G.F: Chapter 2'', ''Action, Crime'', 82 / 10, 2022),
     (''The Avengers'', ''Action, Superhero'', 80 / 10, 2012)]"

definition sample_cells :: "string \<times> string \<times> rat \<times> int \<Rightarrow> cell list" where
  "sample_cells r = (case r of (t, g, x, y) \<Rightarrow> [Str (py t), Str (py g), Flt (Fin x), IntC y])"

text \<open>\<open>os.path.exists(path)\<close>: a file or a directory is there.\<close>

definition exists :: "filesystem \<Rightarrow> string \<Rightarrow> bool" where
  "exists fs path = (fs path \<noteq> None)"

definition ensure_dataset :: "filesystem \<Rightarrow> string \<Rightarrow> error + filesystem" where
  "ensure_dataset fs path =
     (if exists fs path then Inr fs
      else to_csv fs path canonical (map sample_cells sample))"

section \<open>The charts and main\<close>

definition chart_avg_rating_by_genre ::
  "pandas \<Rightarrow> filesystem \<Rightarrow> movie list \<Rightarrow> string \<Rightarrow> error + filesystem \<times> (pystr \<times> float64) list" where
  "chart_avg_rating_by_genre L fs expd out_path =
     (let ga = genre_avg L expd
      in case savefig fs out_path (map fst ga) (map snd ga) of
           Inl e \<Rightarrow> Inl e | Inr fs' \<Rightarrow> Inr (fs', ga))"

definition chart_movies_per_year ::
  "pandas \<Rightarrow> filesystem \<Rightarrow> movie list \<Rightarrow> string \<Rightarrow> error + filesystem \<times> (int \<times> nat) list" where
  "chart_movies_per_year L fs df out_path =
     (let pyr = per_year df
      in case savefig fs out_path (map (\<lambda>r. num_str L (IntC (fst r))) pyr)
                (map (\<lambda>r. Fin (of_nat (snd r))) pyr) of
           Inl e \<Rightarrow> Inl e | Inr fs' \<Rightarrow> Inr (fs', pyr))"

definition DATA_PATH :: string where
  "DATA_PATH = ''movies.csv''"

definition OK :: string where
  "OK = ''ok''"

text \<open>An exception ends the run: \<open>Inl\<close> is passed on.\<close>

definition bind :: "error + 'a \<Rightarrow> ('a \<Rightarrow> error + 'b) \<Rightarrow> error + 'b" where
  "bind x f = (case x of Inl e \<Rightarrow> Inl e | Inr v \<Rightarrow> f v)"

definition main :: "pandas \<Rightarrow> filesystem \<Rightarrow> error + filesystem" where
  "main L fs0 =
     bind (makedirs fs0 OK) (\<lambda>fs1.
     bind (ensure_dataset fs1 DATA_PATH) (\<lambda>fs2.
     bind (load_and_clean L fs2 DATA_PATH) (\<lambda>df_clean.
     let df_exploded = explode_genres L df_clean;
         t5 = top5 L df_clean
     in
     bind (chart_avg_rating_by_genre L fs2 df_exploded (join OK ''avg_rating_by_genre.png'')) (\<lambda>(fs3, ga).
     bind (chart_movies_per_year L fs3 df_clean (join OK ''movies_per_year.png'')) (\<lambda>(fs4, pyr).
     bind (to_csv fs4 (join OK ''Details_movies.csv'') canonical
             (map movie_cells df_clean)) (\<lambda>fs5.
     bind (to_csv fs5 (join OK ''genre_avg_ratings.csv'') [py ''Genre'', py ''Rating'']
             (map genre_cells ga)) (\<lambda>fs6.
     bind (to_csv fs6 (join OK ''top5_movies.csv'') [py ''Title'', py ''Rating'', py ''Year'']
             (map top5_cells t5)) (\<lambda>fs7.
     to_csv fs7 (join OK ''movies_per_year.csv'') [py ''Year'', py ''Count'']
             (map year_cells pyr)))))))))"

text \<open>The four delimited text files that \<open>main\<close> writes (lines 130-133).\<close>

definition csv_outputs :: "string list" where
  "csv_outputs =
     map (join OK) [''Details_movies.csv'', ''genre_avg_ratings.csv'', ''top5_movies.csv'',
                    ''movies_per_year.csv'']"

text \<open>What a run that succeeds leaves in the file system, \<open>df\<close> being the cleaned table.\<close>

definition final_state :: "pandas \<Rightarrow> filesystem \<Rightarrow> movie list \<Rightarrow> bool" where
  "final_state L fs df \<longleftrightarrow>
     load_and_clean L fs DATA_PATH = Inr df \<and> fs OK = Some Dir \<and>
     fs (join OK ''avg_rating_by_genre.png'') =
       Some (File (Chart (map fst (genre_avg L (explode_genres L df)))
                         (map snd (genre_avg L (explode_genres L df))))) \<and>
     fs (join OK ''movies_per_year.png'') =
       Some (File (Chart (map (\<lambda>r. num_str L (IntC (fst r))) (per_year df))
                         (map (\<lambda>r. Fin (of_nat (snd r))) (per_year df)))) \<and>
     fs (join OK ''Details_movies.csv'') =
       Some (File (Table canonical (map movie_cells df))) \<and>
     fs (join OK ''genre_avg_ratings.csv'') =
       Some (File (Table [py ''Genre'', py ''Rating'']
                     (map genre_cells (genre_avg L (explode_genres L df))))) \<and>
     fs (join OK ''top5_movies.csv'') =
       Some (File (Table [py ''Title'', py ''Rating'', py ''Year''] (map top5_cells (top5 L df)))) \<and>
     fs (join OK ''movies_per_year.csv'') =
       Some (File (Table [py ''Year'', py ''Count''] (map year_cells (per_year df))))"

section \<open>The specification's own notions\<close>

text \<open>
  The genre tokens of a Genre string in the words of the specification: split on the
  comma, trim each token, leave out the tokens that are empty after trimming.
\<close>

definition genre_tokens :: "pystr \<Rightarrow> pystr list" where
  "genre_tokens s = filter (\<lambda>t. t \<noteq> []) (map strip (split_on comma s))"

text \<open>
  The stable descending sort of the specification: \<open>sort_key\<close> is insertion sort, which
  keeps rows of equal key in their original order.
\<close>

definition stable_sort_desc :: "movie list \<Rightarrow> movie list" where
  "stable_sort_desc df = sort_key (\<lambda>m. desc_key (Rating m)) df"

section \<open>Instances of the library parameters\<close>

text \<open>
  numpy's scalar \<open>argsort\<close> on at most 16 values is insertion sort on the positions,
  which leaves equal values in their order.
\<close>

definition argsort_insertion :: "float64 list \<Rightarrow> nat list" where
  "argsort_insertion ks = sort_key (\<lambda>i. asc_key (ks ! i)) [0..<length ks]"

text \<open>
  numpy's vectorised \<open>argsort\<close> (x86-simd-sort, which numpy uses for 64-bit values on
  processors with AVX2 or AVX-512) on at most four values: the values are padded with
  \<open>+inf\<close> to four lanes and sorted, each with its position, by the bitonic network of
  compare-exchanges on the lanes (0,1) (2,3), (0,3) (1,2), (0,1) (2,3); a
  compare-exchange leaves two equal values where they are. Longer arguments are not
  modelled: insertion sort stands in for them.
\<close>

definition cmp_exchange :: "nat \<Rightarrow> nat \<Rightarrow> (float64 \<times> nat) list \<Rightarrow> (float64 \<times> nat) list" where
  "cmp_exchange lo hi v =
     (if asc_key (fst (v ! hi)) < asc_key (fst (v ! lo)) then v[lo := v ! hi, hi := v ! lo] else v)"

definition bitonic4 :: "(float64 \<times> nat) list \<Rightarrow> (float64 \<times> nat) list" where
  "bitonic4 v =
     cmp_exchange 2 3 (cmp_exchange 0 1 (cmp_exchange 1 2 (cmp_exchange 0 3
       (cmp_exchange 2 3 (cmp_exchange 0 1 v)))))"

definition argsort_simd :: "float64 list \<Rightarrow> nat list" where
  "argsort_simd ks =
     (if length ks \<le> 4
      then map snd (take (length ks)
             (bitonic4 (zip (ks @ replicate (4 - length ks) PosInf) [0..<4])))
      else argsort_insertion ks)"

definition isdigit :: "nat \<Rightarrow> bool" where
  "isdigit c = (48 \<le> c \<and> c \<le> 57)"

text \<open>A parser of unsigned decimal integers, and the decimal digits of an integer.\<close>

definition digits_to_num :: "pystr \<Rightarrow> float64" where
  "digits_to_num s =
     (if s \<noteq> [] \<and> list_all isdigit s
      then Fin (of_nat (foldl (\<lambda>n c. 10 * n + (c - 48)) 0 s))
      else NaN)"

fun show_nat :: "nat \<Rightarrow> pystr" where
  "show_nat n = (if n < 10 then [48 + n] else show_nat (n div 10) @ [48 + n mod 10])"

definition show_num :: "cell \<Rightarrow> pystr" where
  "show_num c =
     (case c of IntC i \<Rightarrow> (if i < 0 then 45 # show_nat (nat (- i)) else show_nat (nat i))
      | _ \<Rightarrow> [])"

text \<open>
  A mean for the examples: the exact mean of finite values. The float64 mean is this
  value wherever the sum and the quotient are float64 values, as they are in the
  examples below.
\<close>

definition mean_exact :: "float64 list \<Rightarrow> float64" where
  "mean_exact xs =
     (if xs \<noteq> [] \<and> list_all (\<lambda>x. case x of Fin _ \<Rightarrow> True | _ \<Rightarrow> False) xs
      then Fin (sum_list (map (\<lambda>x. case x of Fin q \<Rightarrow> q | _ \<Rightarrow> 0) xs) / of_nat (length xs))
      else NaN)"

text \<open>
  pandas 2.x with numpy's scalar sort, pandas 2.x with numpy's vectorised sort, and
  pandas 3.
\<close>

definition pandas_insertion :: pandas where
  "pandas_insertion =
     \<lparr>num_str = show_num, na_str = Some (py ''nan''), str_to_num = digits_to_num,
      argsort = argsort_insertion, group_mean = mean_exact\<rparr>"

definition pandas_simd :: pandas where
  "pandas_simd =
     \<lparr>num_str = show_num, na_str = Some (py ''nan''), str_to_num = digits_to_num,
      argsort = argsort_simd, group_mean = mean_exact\<rparr>"


section \<open>Example inputs\<close>

text \<open>
  A table with a padded header, a rating above 10, one below 0, a missing rating, a Year
  that is not a number, a Genre with a trailing comma and a repeated Year.
\<close>

definition example_table :: raw_frame where
  "example_table =
     \<lparr>columns = [py '' title'', py ''GENRE'', py ''rating '', py ''Year''],
      rows = [[Str (py ''Alpha''), Str (py ''Action, Drama''), Flt (Fin 15), Str (py ''2001'')],
              [Str (py ''Beta''), Str (py ''Drama''), Flt NaN, Str (py ''2002'')],
              [Str (py '' Gamma ''), Str (py ''Drama, ''), Flt (Fin 7), Str (py ''2003'')],
              [Str (py ''Delta''), Str (py ''Comedy''), Flt (Fin 8), Str (py ''soon'')],
              [Str (py ''Epsilon''), Str (py ''Action''), Flt (Fin (- 3)), Str (py ''2001'')]]\<rparr>"

definition example_fs :: filesystem where
  "example_fs = [''movies.csv'' \<mapsto> File (Table (columns example_table) (rows example_table))]"

definition example_clean :: "movie list" where
  "example_clean =
     [\<lparr>Title = Some (py ''Alpha''), Genre = Some (py ''Action, Drama''), Rating = Fin 10,
        Year = Some 2001\<rparr>,
      \<lparr>Title = Some (py ''Gamma''), Genre = Some (py ''Drama,''), Rating = Fin 7,
        Year = Some 2003\<rparr>,
      \<lparr>Title = Some (py ''Epsilon''), Genre = Some (py ''Action''), Rating = Fin 0,
        Year = Some 2001\<rparr>]"




text \<open>
  The file \<open>Title,Genre,Rating,Year / Heat,Crime,8.3,1995 / Ronin,Action,7.2,1998.5\<close>:
  \<open>read_csv\<close> loads the Year column as float64.
\<close>

definition fs_fractional_year :: filesystem where
  "fs_fractional_year =
     [''movies.csv'' \<mapsto> File (Table canonical
        [[Str (py ''Heat''), Str (py ''Crime''), Flt (Fin (83 / 10)), Flt (Fin 1995)],
         [Str (py ''Ronin''), Str (py ''Action''), Flt (Fin (72 / 10)), Flt (Fin (3997 / 2))]])]"

text \<open>
  The file \<open>Title,Genre,Rating,Year / First,Drama,8.5,2000 / Second,Drama,8.5,2001\<close>,
  its cleaned table, and the file system after a run on it.
\<close>

definition tie_table :: "movie list" where
  "tie_table =
     [\<lparr>Title = Some (py ''First''), Genre = Some (py ''Drama''), Rating = Fin (17 / 2),
        Year = Some 2000\<rparr>,
      \<lparr>Title = Some (py ''Second''), Genre = Some (py ''Drama''), Rating = Fin (17 / 2),
        Year = Some 2001\<rparr>]"

definition fs_tie :: filesystem where
  "fs_tie =
     [''movies.csv'' \<mapsto> File (Table canonical
        [[Str (py ''First''), Str (py ''Drama''), Flt (Fin (17 / 2)), IntC 2000],
         [Str (py ''Second''), Str (py ''Drama''), Flt (Fin (17 / 2)), IntC 2001]])]"

definition fs_tie_after :: filesystem where
  "fs_tie_after =
     fs_tie(''ok'' \<mapsto> Dir,
       ''ok/avg_rating_by_genre.png'' \<mapsto> File (Chart [py ''Drama''] [Fin (17 / 2)]),
       ''ok/movies_per_year.png'' \<mapsto> File (Chart [py ''2000'', py ''2001''] [Fin 1, Fin 1]),
       ''ok/Details_movies.csv'' \<mapsto>
         File (Table canonical
                 [[Str (py ''First''), Str (py ''Drama''), Flt (Fin (17 / 2)), IntC 2000],
                  [Str (py ''Second''), Str (py ''Drama''), Flt (Fin (17 / 2)), IntC 2001]]),
       ''ok/genre_avg_ratings.csv'' \<mapsto>
         File (Table [py ''Genre'', py ''Rating''] [[Str (py ''Drama''), Flt (Fin (17 / 2))]]),
       ''ok/top5_movies.csv'' \<mapsto>
         File (Table [py ''Title'', py ''Rating'', py ''Year'']
                 [[Str (py ''First''), Flt (Fin (17 / 2)), IntC 2000],
                  [Str (py ''Second''), Flt (Fin (17 / 2)), IntC 2001]]),
       ''ok/movies_per_year.csv'' \<mapsto>
         File (Table [py ''Year'', py ''Count''] [[IntC 2000, IntC 1], [IntC 2001, IntC 1]]))"

text \<open>
  The file \<open>Title,Genre,Rating,Year / North,Drama,7.5,2001 / South,Drama,7.5,2002 /
  East,Drama,9.5,2003 / West,Drama,9.5,2004\<close> and its cleaned table: two pairs of rows
  of equal Rating, in ascending order of Rating.
\<close>

definition north :: movie where
  "north = \<lparr>Title = Some (py ''North''), Genre = Some (py ''Drama''), Rating = Fin (15 / 2),
            Year = Some 2001\<rparr>"

definition south :: movie where
  "south = \<lparr>Title = Some (py ''South''), Genre = Some (py ''Drama''), Rating = Fin (15 / 2),
            Year = Some 2002\<rparr>"

definition east :: movie where
  "east = \<lparr>Title = Some (py ''East''), Genre = Some (py ''Drama''), Rating = Fin (19 / 2),
           Year = Some 2003\<rparr>"

definition west :: movie where
  "west = \<lparr>Title = Some (py ''West''), Genre = Some (py ''Drama''), Rating = Fin (19 / 2),
           Year = Some 2004\<rparr>"

definition fs_four :: filesystem where
  "fs_four =
     [''movies.csv'' \<mapsto> File (Table canonical
        [[Str (py ''North''), Str (py ''Drama''), Flt (Fin (15 / 2)), IntC 2001],
         [Str (py ''South''), Str (py ''Drama''), Flt (Fin (15 / 2)), IntC 2002],
         [Str (py ''East''), Str (py ''Drama''), Flt (Fin (19 / 2)), IntC 2003],
         [Str (py ''West''), Str (py ''Drama''), Flt (Fin (19 / 2)), IntC 2004]])]"

section \<open>Evaluation of the examples\<close>

lemmas str_eval = py_def strip_def isspace_def title_def islower_def isupper_def toupper_def
  tolower_def

lemma py_eq: "py a = py b \<longleftrightarrow> a = b"
  unfolding py_def by (simp add: inj_map_eq_map inj_on_def)

lemma floor_half: "\<lfloor>(3997::rat) / 2\<rfloor> = 1998"
  by (simp add: floor_eq_iff)

lemma cast_fractional: "astype_Int64 (Fin (3997 / 2)) = Inl TypeError"
  by (simp add: astype_Int64_def floor_half)

lemma canonical_header:
  "normalise \<lparr>columns = canonical, rows = rs\<rparr> = canonical"
  by (simp add: normalise_def canonical_def str_eval)

lemma example_header:
  "normalise \<lparr>columns = [py '' title'', py ''GENRE'', py ''rating '', py ''Year''], rows = rs\<rparr>
     = canonical"
  by (simp add: normalise_def canonical_def str_eval)

lemma canonical_select:
  "select canonical (py ''Title'') = One 0"
  "select canonical (py ''Genre'') = One 1"
  "select canonical (py ''Rating'') = One 2"
  "select canonical (py ''Year'') = One 3"
  by (simp_all add: select_def canonical_def py_eq upt_rec)

lemma strips:
  "strip (py ''Heat'') = py ''Heat''" "strip (py ''Crime'') = py ''Crime''"
  "strip (py ''nan'') = py ''nan''"
  "strip (py ''Drama'') = py ''Drama''" "strip (py ''Alpha'') = py ''Alpha''"
  "strip (py ''Beta'') = py ''Beta''"
  "strip (py '' Gamma '') = py ''Gamma''" "strip (py ''Delta'') = py ''Delta''"
  "strip (py ''Epsilon'') = py ''Epsilon''"
  "strip (py ''Action, Drama'') = py ''Action, Drama''" "strip (py ''Drama, '') = py ''Drama,''"
  "strip (py ''Comedy'') = py ''Comedy''" "strip (py ''Action'') = py ''Action''"
  "strip (py ''First'') = py ''First''" "strip (py ''Second'') = py ''Second''"
  "strip (py ''Ronin'') = py ''Ronin''"
  "strip (py ''North'') = py ''North''" "strip (py ''South'') = py ''South''"
  "strip (py ''East'') = py ''East''" "strip (py ''West'') = py ''West''"
  by (simp_all add: py_def strip_def isspace_def)

lemma parses:
  "digits_to_num (py ''2001'') = Fin 2001" "digits_to_num (py ''2002'') = Fin 2002"
  "digits_to_num (py ''2003'') = Fin 2003" "digits_to_num (py ''soon'') = NaN"
  by (simp_all add: digits_to_num_def isdigit_def py_def)

lemma cast_int:
  "astype_Int64 (Fin (numeral n)) =
     (if (numeral n :: int) < 2 ^ 63 then Inr (Some (numeral n)) else Inl TypeError)"
  "astype_Int64 NaN = Inr None"
  by (simp_all add: astype_Int64_def)

lemma example_read: "read_csv example_fs ''movies.csv'' = Inr example_table"
  by (simp add: read_csv_def example_fs_def)

lemma example_cleaned:
  "load_and_clean pandas_insertion example_fs ''movies.csv'' = Inr example_clean"
  unfolding load_and_clean_def example_read
  by (simp add: clean_def before_clip_def example_header canonical_select example_table_def
        cell_at_def to_numeric_def castable_def cast_error_def
        the_year_def cast_int coerce_row_def astype_str_def strips parses dropna_def notna_def
        clip_rating_def clip_def pandas_insertion_def example_clean_def)

section \<open>Properties of load_and_clean\<close>

lemma cast_error_None: "cast_error ys = None \<Longrightarrow> list_all castable ys"
  by (auto simp: cast_error_def Let_def split: if_splits)

lemma before_clip_InrD:
  assumes "before_clip L df = Inr d"
  shows "\<exists>t g r y. select (normalise df) (py ''Title'') = One t
         \<and> select (normalise df) (py ''Genre'') = One g
         \<and> select (normalise df) (py ''Rating'') = One r
         \<and> select (normalise df) (py ''Year'') = One y
         \<and> list_all (\<lambda>cs. castable (to_numeric L (cell_at cs y))) (rows df)
         \<and> d = dropna (map (coerce_row L t g r y) (rows df))"
proof -
  from assms obtain t g r y where
    sel: "select (normalise df) (py ''Title'') = One t" "select (normalise df) (py ''Genre'') = One g"
         "select (normalise df) (py ''Rating'') = One r" "select (normalise df) (py ''Year'') = One y"
    and ce: "cast_error (map (\<lambda>cs. to_numeric L (cell_at cs y)) (rows df)) = None"
    and d: "d = dropna (map (coerce_row L t g r y) (rows df))"
    unfolding before_clip_def Let_def
    by (auto split: if_splits colsel.splits option.splits)
  from cast_error_None[OF ce] have "list_all (\<lambda>cs. castable (to_numeric L (cell_at cs y))) (rows df)"
    by (simp add: list_all_iff)
  with sel d show ?thesis by blast
qed

lemma load_and_clean_InrD:
  assumes "load_and_clean L fs path = Inr df"
  shows "\<exists>raw d. read_csv fs path = Inr raw \<and> before_clip L raw = Inr d \<and> df = map clip_rating d"
  using assms unfolding load_and_clean_def clean_def
  by (auto split: sum.splits)

lemma clip_cases:
  "clip 0 10 x = (case x of NaN \<Rightarrow> NaN | NegInf \<Rightarrow> Fin 0 | PosInf \<Rightarrow> Fin 10
     | Fin r \<Rightarrow> Fin (if r < 0 then 0 else if 10 < r then 10 else r))"
  by (auto simp: clip_def split: float64.splits)

text \<open>Every row of a cleaned table has its four fields, and a finite Rating in [0, 10].\<close>

lemma cleaned_row:
  assumes "load_and_clean L fs path = Inr df" and "m \<in> set df"
  shows "(\<exists>t. Title m = Some t) \<and> (\<exists>g. Genre m = Some g) \<and> (\<exists>y. Year m = Some y)
         \<and> (\<exists>q. Rating m = Fin q \<and> 0 \<le> q \<and> q \<le> 10)"
proof -
  from load_and_clean_InrD[OF assms(1)]
  obtain raw d where d: "before_clip L raw = Inr d" and df: "df = map clip_rating d" by blast
  from assms(2) df obtain p where p: "p \<in> set d" and m: "m = clip_rating p" by auto
  from before_clip_InrD[OF d] p have "notna p" by (auto simp: dropna_def)
  then show ?thesis unfolding m
    by (auto simp: notna_def clip_rating_def clip_cases split: float64.splits)
qed







text \<open>
  C2: every row of the cleaned table is the row of the frame before \<open>clip\<close> with only
  its Rating changed; the new Rating is finite and in [0, 10], it is 0 when the parsed
  rating was below 0, 10 when it was above 10, and the parsed rating itself otherwise.
\<close>

theorem clip_into_range:
  assumes "read_csv fs path = Inr raw" and "load_and_clean L fs path = Inr df"
  shows "\<exists>pre. before_clip L raw = Inr pre \<and>
           list_all2 (\<lambda>p m. m = p\<lparr>Rating := Rating m\<rparr> \<and>
              (\<exists>q. Rating m = Fin q \<and> 0 \<le> q \<and> q \<le> 10 \<and>
                 (case Rating p of
                    Fin x \<Rightarrow> (x < 0 \<longrightarrow> q = 0) \<and> (10 < x \<longrightarrow> q = 10) \<and> (0 \<le> x \<and> x \<le> 10 \<longrightarrow> q = x)
                  | NegInf \<Rightarrow> q = 0 | PosInf \<Rightarrow> q = 10 | NaN \<Rightarrow> False))) pre df"
proof -
  from load_and_clean_InrD[OF assms(2)] assms(1)
  obtain d where d: "before_clip L raw = Inr d" and df: "df = map clip_rating d" by auto
  from before_clip_InrD[OF d] have nn: "\<forall>p \<in> set d. Rating p \<noteq> NaN"
    by (auto simp: dropna_def notna_def)
  have "list_all2 (\<lambda>p m. m = p\<lparr>Rating := Rating m\<rparr> \<and>
              (\<exists>q. Rating m = Fin q \<and> 0 \<le> q \<and> q \<le> 10 \<and>
                 (case Rating p of
                    Fin x \<Rightarrow> (x < 0 \<longrightarrow> q = 0) \<and> (10 < x \<longrightarrow> q = 10) \<and> (0 \<le> x \<and> x \<le> 10 \<longrightarrow> q = x)
                  | NegInf \<Rightarrow> q = 0 | PosInf \<Rightarrow> q = 10 | NaN \<Rightarrow> False))) d (map clip_rating d)"
    unfolding list_all2_map2
    by (rule list_all2_all_nthI) (use nn in \<open>auto simp: clip_rating_def clip_cases split: float64.splits\<close>)
  with d df show ?thesis by blast
qed

theorem clip_into_range_witness:
  "read_csv example_fs ''movies.csv'' = Inr example_table \<and>
   load_and_clean pandas_insertion example_fs ''movies.csv'' = Inr example_clean \<and>
   (\<exists>pre. before_clip pandas_insertion example_table = Inr pre \<and>
           list_all2 (\<lambda>p m. m = p\<lparr>Rating := Rating m\<rparr> \<and>
              (\<exists>q. Rating m = Fin q \<and> 0 \<le> q \<and> q \<le> 10 \<and>
                 (case Rating p of
                    Fin x \<Rightarrow> (x < 0 \<longrightarrow> q = 0) \<and> (10 < x \<longrightarrow> q = 10) \<and> (0 \<le> x \<and> x \<le> 10 \<longrightarrow> q = x)
                  | NegInf \<Rightarrow> q = 0 | PosInf \<Rightarrow> q = 10 | NaN \<Rightarrow> False))) pre example_clean)"
  by (intro conjI example_read example_cleaned clip_into_range[OF example_read example_cleaned])

text \<open>
  C5, evaluated where it fails: the Year \<open>1998.5\<close> is a number and not an integer;
  \<open>to_numeric\<close> keeps it and \<open>astype("Int64")\<close> (line 67) raises \<open>TypeError\<close>, so
  \<open>load_and_clean\<close> returns no table at all.
\<close>

theorem fractional_year_raises:
  "load_and_clean L fs_fractional_year ''movies.csv'' = Inl TypeError"
  by (simp add: load_and_clean_def read_csv_def fs_fractional_year_def clean_def before_clip_def
        canonical_header canonical_select cell_at_def to_numeric_def castable_def cast_fractional
        cast_error_def)

lemma filter_as_positions:
  "filter P xs = map (\<lambda>k. xs ! k) (filter (\<lambda>k. P (xs ! k)) [0..<length xs])"
proof -
  have "filter P (map (\<lambda>k. xs ! k) [0..<length xs]) =
        map (\<lambda>k. xs ! k) (filter (\<lambda>k. P (xs ! k)) [0..<length xs])"
    by (simp add: filter_map comp_def)
  then show ?thesis by (simp add: map_nth)
qed

text \<open>
  C10: the cleaned table is the image of the input rows at strictly increasing
  positions: rows are removed, the others keep their relative order.
\<close>

theorem survivors_keep_order:
  assumes "read_csv fs path = Inr raw" and "load_and_clean L fs path = Inr df"
  shows "\<exists>t g r y ks.
           select (normalise raw) (py ''Title'') = One t \<and> select (normalise raw) (py ''Genre'') = One g \<and>
           select (normalise raw) (py ''Rating'') = One r \<and> select (normalise raw) (py ''Year'') = One y \<and>
           sorted_wrt (<) ks \<and> (\<forall>k \<in> set ks. k < length (rows raw)) \<and>
           df = map (\<lambda>k. clip_rating (coerce_row L t g r y (rows raw ! k))) ks"
proof -
  from load_and_clean_InrD[OF assms(2)] assms(1)
  obtain d where d: "before_clip L raw = Inr d" and df: "df = map clip_rating d" by auto
  from before_clip_InrD[OF d] obtain t g r y where
    sel: "select (normalise raw) (py ''Title'') = One t" "select (normalise raw) (py ''Genre'') = One g"
         "select (normalise raw) (py ''Rating'') = One r" "select (normalise raw) (py ''Year'') = One y"
    and dd: "d = dropna (map (coerce_row L t g r y) (rows raw))" by blast
  define ks where "ks = filter (\<lambda>k. notna (coerce_row L t g r y (rows raw ! k))) [0..<length (rows raw)]"
  have "sorted_wrt (<) ks" unfolding ks_def by (rule sorted_wrt_filter) simp
  moreover have "\<forall>k \<in> set ks. k < length (rows raw)" by (simp add: ks_def)
  moreover have "d = map (\<lambda>k. coerce_row L t g r y (rows raw ! k)) ks"
    unfolding dd dropna_def ks_def filter_as_positions[of notna "map _ _"]
    by (auto intro!: map_cong filter_cong)
  ultimately show ?thesis using sel df by (auto simp: comp_def)
qed

theorem survivors_keep_order_witness:
  "read_csv example_fs ''movies.csv'' = Inr example_table \<and>
   load_and_clean pandas_insertion example_fs ''movies.csv'' = Inr example_clean \<and>
   (\<exists>t g r y ks.
      select (normalise example_table) (py ''Title'') = One t \<and>
      select (normalise example_table) (py ''Genre'') = One g \<and>
      select (normalise example_table) (py ''Rating'') = One r \<and>
      select (normalise example_table) (py ''Year'') = One y \<and>
      sorted_wrt (<) ks \<and> (\<forall>k \<in> set ks. k < length (rows example_table)) \<and>
      example_clean =
        map (\<lambda>k. clip_rating (coerce_row pandas_insertion t g r y (rows example_table ! k))) ks)"
  by (intro conjI example_read example_cleaned
        survivors_keep_order[OF example_read example_cleaned])

section \<open>Properties of explode_genres\<close>

lemma tokens_example: "genre_tokens (py ''Drama, '') = [py ''Drama'']"
  by (simp add: genre_tokens_def comma_def py_def strip_def isspace_def)

lemma explode_genres_present:
  assumes "\<forall>m \<in> set df. Genre m \<noteq> None"
  shows "explode_genres L df =
     concat (map (\<lambda>m. case Genre m of None \<Rightarrow> []
                       | Some g \<Rightarrow> map (\<lambda>t. m\<lparr>Genre := Some t\<rparr>) (genre_tokens g)) df)"
  using assms unfolding explode_genres_def Let_def explode_def genre_tokens_def obj_str_def
  by (induction df) (auto simp: filter_map comp_def)

lemma exploded_row:
  assumes "\<forall>m \<in> set df. Genre m \<noteq> None"
  shows "e \<in> set (explode_genres L df) \<longleftrightarrow>
     (\<exists>m \<in> set df. \<exists>g. Genre m = Some g \<and> (\<exists>t \<in> set (genre_tokens g). e = m\<lparr>Genre := Some t\<rparr>))"
  unfolding explode_genres_present[OF assms]
  by (auto split: option.splits) (metis, force)

text \<open>
  C4: for a cleaned table \<open>explode_genres\<close> returns, row after row, one record for each
  genre token of the row's Genre (split on the comma, trimmed, the empty ones left out);
  the record is the row with the token as its Genre, so Title, Rating and Year are those
  of the row. The Genre \<open>Drama, \<close> has the one token \<open>Drama\<close>.
\<close>

theorem explode_genres_tokens:
  assumes "load_and_clean L fs path = Inr df"
  shows "explode_genres L df =
           concat (map (\<lambda>m. case Genre m of None \<Rightarrow> []
                             | Some g \<Rightarrow> map (\<lambda>t. m\<lparr>Genre := Some t\<rparr>) (genre_tokens g)) df)
         \<and> genre_tokens (py ''Drama, '') = [py ''Drama'']"
proof -
  have "\<forall>m \<in> set df. Genre m \<noteq> None"
    using cleaned_row[OF assms] by fastforce
  from explode_genres_present[OF this] tokens_example show ?thesis by blast
qed

lemma example_tokens:
  "genre_tokens (py ''Action, Drama'') = [py ''Action'', py ''Drama'']"
  "genre_tokens (py ''Drama,'') = [py ''Drama'']"
  "genre_tokens (py ''Action'') = [py ''Action'']"
  "genre_tokens (py ''Drama'') = [py ''Drama'']"
  by (simp_all add: genre_tokens_def comma_def py_def strip_def isspace_def)

lemma example_exploded:
  "explode_genres pandas_insertion example_clean =
     [\<lparr>Title = Some (py ''Alpha''), Genre = Some (py ''Action''), Rating = Fin 10, Year = Some 2001\<rparr>,
      \<lparr>Title = Some (py ''Alpha''), Genre = Some (py ''Drama''), Rating = Fin 10, Year = Some 2001\<rparr>,
      \<lparr>Title = Some (py ''Gamma''), Genre = Some (py ''Drama''), Rating = Fin 7, Year = Some 2003\<rparr>,
      \<lparr>Title = Some (py ''Epsilon''), Genre = Some (py ''Action''), Rating = Fin 0, Year = Some 2001\<rparr>]"
proof -
  have "\<forall>m \<in> set example_clean. Genre m \<noteq> None" by (simp add: example_clean_def)
  from explode_genres_present[OF this] show ?thesis
    by (simp add: example_clean_def example_tokens)
qed

theorem explode_genres_tokens_witness:
  "load_and_clean pandas_insertion example_fs ''movies.csv'' = Inr example_clean \<and>
   explode_genres pandas_insertion example_clean =
     [\<lparr>Title = Some (py ''Alpha''), Genre = Some (py ''Action''), Rating = Fin 10, Year = Some 2001\<rparr>,
      \<lparr>Title = Some (py ''Alpha''), Genre = Some (py ''Drama''), Rating = Fin 10, Year = Some 2001\<rparr>,
      \<lparr>Title = Some (py ''Gamma''), Genre = Some (py ''Drama''), Rating = Fin 7, Year = Some 2003\<rparr>,
      \<lparr>Title = Some (py ''Epsilon''), Genre = Some (py ''Action''), Rating = Fin 0, Year = Some 2001\<rparr>] \<and>
   explode_genres pandas_insertion example_clean =
     concat (map (\<lambda>m. case Genre m of None \<Rightarrow> []
                       | Some g \<Rightarrow> map (\<lambda>t. m\<lparr>Genre := Some t\<rparr>) (genre_tokens g)) example_clean) \<and>
   genre_tokens (py ''Drama, '') = [py ''Drama'']"
  using example_cleaned example_exploded explode_genres_tokens[OF example_cleaned] by (intro conjI) blast+

section \<open>Properties of ensure_dataset\<close>




section \<open>Properties of the Year aggregate\<close>

lemma group_keys_props:
  "sorted (group_keys ks)" "distinct (group_keys ks)"
  "set (group_keys ks) = {x. Some x \<in> set ks}"
  unfolding group_keys_def by (auto split: option.splits)

lemma sum_one_hit:
  "distinct ks \<Longrightarrow> sum_list (map (\<lambda>k. if k0 = k then 1 else (0::nat)) ks) = (if k0 \<in> set ks then 1 else 0)"
  by (induction ks) auto

lemma sum_group_sizes:
  assumes "distinct ks" and "\<forall>x \<in> set xs. \<exists>k \<in> set ks. f x = Some k"
  shows "sum_list (map (\<lambda>k. length (filter (\<lambda>m. f m = Some k) xs)) ks) = length xs"
  using assms(2)
proof (induction xs)
  case Nil
  then show ?case by simp
next
  case (Cons x xs)
  then obtain k0 where k0: "k0 \<in> set ks" "f x = Some k0" by auto
  have "sum_list (map (\<lambda>k. length (filter (\<lambda>m. f m = Some k) (x # xs))) ks)
      = sum_list (map (\<lambda>k. (if k0 = k then 1 else 0) + length (filter (\<lambda>m. f m = Some k) xs)) ks)"
    by (rule arg_cong[where f = sum_list], rule map_cong) (auto simp: k0)
  also have "\<dots> = sum_list (map (\<lambda>k. if k0 = k then 1 else 0) ks)
                 + sum_list (map (\<lambda>k. length (filter (\<lambda>m. f m = Some k) xs)) ks)"
    by (simp add: sum_list_addf)
  also have "\<dots> = 1 + length xs"
    using Cons k0 assms(1) by (simp add: sum_one_hit)
  finally show ?case by simp
qed

lemma per_year_unsorted:
  "per_year df = map (\<lambda>y. (y, length (filter (\<lambda>m. Year m = Some y) df))) (group_keys (map Year df))"
  unfolding per_year_def
  by (rule sort_key_id_if_sorted) (simp add: comp_def group_keys_props)

text \<open>
  C7: for a cleaned table, the Year aggregate has its years strictly ascending (so each
  once), they are the years of the table, each Count is the number of rows of that Year,
  and the Counts add up to the number of rows.
\<close>

theorem per_year_counts:
  assumes "load_and_clean L fs path = Inr df"
  shows "sorted_wrt (<) (map fst (per_year df)) \<and>
         set (map fst (per_year df)) = {y. \<exists>m \<in> set df. Year m = Some y} \<and>
         (\<forall>r \<in> set (per_year df). snd r = length (filter (\<lambda>m. Year m = Some (fst r)) df)) \<and>
         sum_list (map snd (per_year df)) = length df"
proof -
  have keys: "map fst (per_year df) = group_keys (map Year df)"
    by (simp add: per_year_unsorted comp_def)
  have "\<forall>m \<in> set df. \<exists>k \<in> set (group_keys (map Year df)). Year m = Some k"
  proof
    fix m assume m: "m \<in> set df"
    from cleaned_row[OF assms m] obtain y where "Year m = Some y" by blast
    with m show "\<exists>k \<in> set (group_keys (map Year df)). Year m = Some k"
      by (force simp: group_keys_props)
  qed
  then have "sum_list (map snd (per_year df)) = length df"
    using sum_group_sizes[of "group_keys (map Year df)" df Year]
    by (simp add: per_year_unsorted comp_def group_keys_props)
  moreover have "sorted_wrt (<) (map fst (per_year df))"
    by (simp add: keys strict_sorted_iff group_keys_props)
  moreover have "set (map fst (per_year df)) = {y. \<exists>m \<in> set df. Year m = Some y}"
    unfolding keys by (force simp: group_keys_props)
  moreover have "\<forall>r \<in> set (per_year df). snd r = length (filter (\<lambda>m. Year m = Some (fst r)) df)"
    by (auto simp: per_year_unsorted)
  ultimately show ?thesis by blast
qed

lemma example_per_year: "per_year example_clean = [(2001, 2), (2003, 1)]"
  by (simp add: per_year_def group_keys_def example_clean_def)

theorem per_year_counts_witness:
  "load_and_clean pandas_insertion example_fs ''movies.csv'' = Inr example_clean \<and>
   per_year example_clean = [(2001, 2), (2003, 1)] \<and>
   sorted_wrt (<) (map fst (per_year example_clean)) \<and>
   set (map fst (per_year example_clean)) = {y. \<exists>m \<in> set example_clean. Year m = Some y} \<and>
   length (filter (\<lambda>m. Year m = Some 2001) example_clean) = 2 \<and>
   sum_list (map snd (per_year example_clean)) = length example_clean"
proof -
  note th = per_year_counts[OF example_cleaned]
  from th have rows: "\<forall>r \<in> set (per_year example_clean).
      snd r = length (filter (\<lambda>m. Year m = Some (fst r)) example_clean)" by blast
  have mem: "(2001, 2) \<in> set (per_year example_clean)" by (simp add: example_per_year)
  from bspec[OF rows mem] have "length (filter (\<lambda>m. Year m = Some 2001) example_clean) = 2"
    by simp
  with th example_cleaned example_per_year show ?thesis by blast
qed

section \<open>Sorting with a valid argsort\<close>

lemma key_flip: "x \<noteq> NaN \<Longrightarrow> y \<noteq> NaN \<Longrightarrow> desc_key x \<le> desc_key y \<longleftrightarrow> asc_key y \<le> asc_key x"
  by (cases x; cases y) (auto simp: desc_key_def asc_key_def less_eq_prod_def)

lemma desc_key_NaN_top: "desc_key x \<le> desc_key NaN"
  by (cases x) (auto simp: desc_key_def less_eq_prod_def)

lemma inj_desc_key: "desc_key x = desc_key y \<Longrightarrow> x = y"
  by (cases x; cases y) (auto simp: desc_key_def)

lemma valid_argsort_insertion: "valid_argsort argsort_insertion"
  unfolding valid_argsort_def argsort_insertion_def
  by (auto simp: sorted_sort_key)

lemma mset_map_cong: "mset a = mset b \<Longrightarrow> mset (map f a) = mset (map f b)"
  by (metis mset_map)

lemma filter_partition_mset: "mset (filter P xs) + mset (filter (\<lambda>x. \<not> P x) xs) = mset xs"
  by (induction xs) auto

lemma nargsort_desc_perm:
  assumes "valid_argsort (argsort L)"
  shows "mset (nargsort_desc L items) = mset [0..<length items]"
proof -
  define nn where "nn = rev (filter (\<lambda>i. items ! i \<noteq> NaN) [0..<length items])"
  define vals where "vals = map (\<lambda>i. items ! i) nn"
  have "NaN \<notin> set vals" by (auto simp: vals_def nn_def)
  with assms have a: "mset (argsort L vals) = mset [0..<length vals]"
    unfolding valid_argsort_def by blast
  have len: "length vals = length nn" by (simp add: vals_def)
  have "mset (map (\<lambda>j. nn ! j) (argsort L vals)) = mset (map (\<lambda>j. nn ! j) [0..<length nn])"
    using mset_map_cong[OF a] by (simp only: len)
  also have "\<dots> = mset nn" by (simp only: map_nth)
  finally have b: "mset (map (\<lambda>j. nn ! j) (argsort L vals)) = mset (filter (\<lambda>i. items ! i \<noteq> NaN) [0..<length items])"
    by (simp add: nn_def)
  have "nargsort_desc L items = rev (map (\<lambda>j. nn ! j) (argsort L vals)) @ filter (\<lambda>i. items ! i = NaN) [0..<length items]"
    unfolding nargsort_desc_def Let_def nn_def vals_def ..
  then have "mset (nargsort_desc L items) = mset (filter (\<lambda>i. items ! i \<noteq> NaN) [0..<length items])
      + mset (filter (\<lambda>i. \<not> items ! i \<noteq> NaN) [0..<length items])"
    using b by simp
  then show ?thesis by (simp only: filter_partition_mset)
qed



lemma sorted_const_keys: "\<forall>y \<in> set ys. f y = c \<Longrightarrow> sorted (map f ys)"
  by (induction ys) auto

lemma nargsort_desc_sorted:
  assumes "valid_argsort (argsort L)"
  shows "sorted (map (\<lambda>i. desc_key (items ! i)) (nargsort_desc L items))"
proof -
  define nn where "nn = rev (filter (\<lambda>i. items ! i \<noteq> NaN) [0..<length items])"
  define vals where "vals = map (\<lambda>i. items ! i) nn"
  define a where "a = argsort L vals"
  define nans where "nans = filter (\<lambda>i. items ! i = NaN) [0..<length items]"
  have nonan: "NaN \<notin> set vals" by (auto simp: vals_def nn_def)
  with assms have perm: "mset a = mset [0..<length vals]"
    and srt: "sorted (map (\<lambda>j. asc_key (vals ! j)) a)"
    unfolding valid_argsort_def a_def by blast+
  have len: "length vals = length nn" by (simp add: vals_def)
  have "set a = set [0..<length vals]" using perm by (rule mset_eq_setD)
  then have rng: "\<And>j. j \<in> set a \<Longrightarrow> j < length nn" by (simp add: len)
  have val: "vals ! j = items ! (nn ! j)" "vals ! j \<noteq> NaN" if "j \<in> set a" for j
  proof -
    from rng[OF that] show "vals ! j = items ! (nn ! j)" by (simp add: vals_def)
    from rng[OF that] have "vals ! j \<in> set vals" by (simp add: len)
    with nonan show "vals ! j \<noteq> NaN" by metis
  qed
  have "sorted_wrt (\<lambda>i j. asc_key (vals ! i) \<le> asc_key (vals ! j)) a"
    using srt by (simp add: sorted_map)
  then have "sorted_wrt (\<lambda>i j. desc_key (items ! (nn ! j)) \<le> desc_key (items ! (nn ! i))) a"
  proof (rule sorted_wrt_mono_rel[rotated])
    fix i j assume ij: "i \<in> set a" "j \<in> set a" and le: "asc_key (vals ! i) \<le> asc_key (vals ! j)"
    have "desc_key (vals ! j) \<le> desc_key (vals ! i)"
      using key_flip[OF val(2)[OF ij(2)] val(2)[OF ij(1)]] le by simp
    then show "desc_key (items ! (nn ! j)) \<le> desc_key (items ! (nn ! i))"
      by (simp only: val(1)[OF ij(1)] val(1)[OF ij(2)])
  qed
  then have "sorted_wrt (\<lambda>i j. desc_key (items ! (nn ! i)) \<le> desc_key (items ! (nn ! j))) (rev a)"
    by (simp add: sorted_wrt_rev)
  then have front: "sorted (map (\<lambda>i. desc_key (items ! i)) (rev (map (\<lambda>j. nn ! j) a)))"
    by (simp add: sorted_map sorted_wrt_map rev_map)
  have nans_sorted: "sorted (map (\<lambda>i. desc_key (items ! i)) nans)"
    by (rule sorted_const_keys[where c = "desc_key NaN"]) (simp add: nans_def)
  have cross: "\<forall>x \<in> set (map (\<lambda>i. desc_key (items ! i)) (rev (map (\<lambda>j. nn ! j) a))).
               \<forall>y \<in> set (map (\<lambda>i. desc_key (items ! i)) nans). x \<le> y"
    by (auto simp: nans_def desc_key_NaN_top)
  have "nargsort_desc L items = rev (map (\<lambda>j. nn ! j) a) @ nans"
    unfolding nargsort_desc_def Let_def nn_def vals_def a_def nans_def ..
  then show ?thesis
    using front nans_sorted cross by (simp only: map_append sorted_append)
qed

lemma sort_values_desc_mset:
  assumes "valid_argsort (argsort L)"
  shows "mset (sort_values_desc L by df) = mset df"
proof -
  have "mset (map (\<lambda>i. df ! i) (nargsort_desc L (map by df))) = mset (map (\<lambda>i. df ! i) [0..<length df])"
    using mset_map_cong[OF nargsort_desc_perm[OF assms, of "map by df"]] by simp
  then show ?thesis by (simp only: sort_values_desc_def map_nth)
qed

lemma nargsort_desc_range:
  assumes "valid_argsort (argsort L)"
  shows "\<forall>i \<in> set (nargsort_desc L items). i < length items"
  using nargsort_desc_perm[OF assms, of items]
  by (metis atLeastLessThan_iff mset_eq_setD set_upt)

lemma sort_values_desc_sorted:
  assumes "valid_argsort (argsort L)"
  shows "sorted (map (\<lambda>m. desc_key (by m)) (sort_values_desc L by df))"
proof -
  have "map (\<lambda>m. desc_key (by m)) (sort_values_desc L by df)
      = map (\<lambda>i. desc_key (map by df ! i)) (nargsort_desc L (map by df))"
    unfolding sort_values_desc_def map_map comp_def
    by (rule map_cong) (use nargsort_desc_range[OF assms, of "map by df"] in auto)
  then show ?thesis using nargsort_desc_sorted[OF assms, of "map by df"] by simp
qed


section \<open>The Top-N table\<close>

lemma sorted_same_mset: "sorted (xs :: 'a::linorder list) \<Longrightarrow> sorted ys \<Longrightarrow> mset xs = mset ys \<Longrightarrow> xs = ys"
  by (metis properties_for_sort)

lemma sort_values_desc_ratings:
  assumes "valid_argsort (argsort L)"
  shows "map Rating (sort_values_desc L Rating df) = map Rating (stable_sort_desc df)"
proof -
  let ?k = "\<lambda>m. desc_key (Rating m)"
  have "map ?k (sort_values_desc L Rating df) = map ?k (stable_sort_desc df)"
  proof (rule sorted_same_mset)
    show "sorted (map ?k (sort_values_desc L Rating df))"
      by (rule sort_values_desc_sorted[OF assms])
    show "sorted (map ?k (stable_sort_desc df))"
      unfolding stable_sort_desc_def by (rule sorted_sort_key)
    have "mset (map ?k (sort_values_desc L Rating df)) = mset (map ?k df)"
      by (rule mset_map_cong[OF sort_values_desc_mset[OF assms]])
    also have "\<dots> = mset (map ?k (stable_sort_desc df))"
      unfolding stable_sort_desc_def by simp
    finally show "mset (map ?k (sort_values_desc L Rating df)) = mset (map ?k (stable_sort_desc df))" .
  qed
  then have "map desc_key (map Rating (sort_values_desc L Rating df)) = map desc_key (map Rating (stable_sort_desc df))"
    by (simp add: comp_def)
  moreover have "inj desc_key" by (rule injI) (rule inj_desc_key)
  ultimately show ?thesis by (simp only: inj_map_eq_map)
qed

text \<open>
  C3, as the code has it: for every table and every \<open>argsort\<close> that meets numpy's
  contract, the Top-N table has min(5, number of rows) rows, they are the (Title, Rating,
  Year) of the first five rows of a permutation of the table, their Ratings are the Ratings
  of the first five rows of the stable descending sort, and they descend. Which rows of
  equal Rating come first is left to \<open>argsort\<close>.
\<close>

theorem top5_rows:
  assumes "valid_argsort (argsort L)"
  shows "length (top5 L df) = min 5 (length df) \<and>
         (\<exists>s. mset s = mset df \<and> top5 L df = map project3 (take 5 s)) \<and>
         map (\<lambda>r. fst (snd r)) (top5 L df) = map Rating (take 5 (stable_sort_desc df)) \<and>
         sorted (map (\<lambda>r. desc_key (fst (snd r))) (top5 L df))"
proof (intro conjI)
  let ?s = "sort_values_desc L Rating df"
  have ms: "mset ?s = mset df" by (rule sort_values_desc_mset[OF assms])
  then have "length ?s = length df" by (rule mset_eq_length)
  then show "length (top5 L df) = min 5 (length df)" by (simp add: top5_def)
  from ms show "\<exists>s. mset s = mset df \<and> top5 L df = map project3 (take 5 s)"
    unfolding top5_def by blast
  have "map (\<lambda>r. fst (snd r)) (top5 L df) = take 5 (map Rating ?s)"
    by (simp add: top5_def project3_def comp_def take_map)
  then show "map (\<lambda>r. fst (snd r)) (top5 L df) = map Rating (take 5 (stable_sort_desc df))"
    by (simp add: sort_values_desc_ratings[OF assms] take_map)
  have "map (\<lambda>r. desc_key (fst (snd r))) (top5 L df) = take 5 (map (\<lambda>m. desc_key (Rating m)) ?s)"
    by (simp add: top5_def project3_def comp_def take_map)
  then show "sorted (map (\<lambda>r. desc_key (fst (snd r))) (top5 L df))"
    using sort_values_desc_sorted[OF assms, of Rating df] by (simp add: sorted_wrt_take)
qed

section \<open>The vectorised argsort\<close>

lemma pad_top: "x \<noteq> NaN \<Longrightarrow> \<not> asc_key PosInf < asc_key x"
  by (cases x) (auto simp: asc_key_def less_prod_def)

lemma cmp_exchange_length: "length (cmp_exchange lo hi v) = length v"
  by (simp add: cmp_exchange_def)

lemma cmp_exchange_mset:
  "lo < length v \<Longrightarrow> hi < length v \<Longrightarrow> mset (cmp_exchange lo hi v) = mset v"
  by (simp add: cmp_exchange_def mset_swap)

lemma bitonic4_mset: "length v = 4 \<Longrightarrow> mset (bitonic4 v) = mset v"
  by (simp add: bitonic4_def cmp_exchange_mset cmp_exchange_length)

lemma net4:
  "\<exists>p q r s. bitonic4 [(a, i), (b, j), (c, k), (d, l)] = [p, q, r, s] \<and>
           asc_key (fst p) \<le> asc_key (fst q) \<and> asc_key (fst q) \<le> asc_key (fst r) \<and>
           asc_key (fst r) \<le> asc_key (fst s)"
  by (auto simp: bitonic4_def cmp_exchange_def)

lemma net3:
  "a \<noteq> NaN \<Longrightarrow> b \<noteq> NaN \<Longrightarrow> c \<noteq> NaN \<Longrightarrow>
   \<exists>p q r. bitonic4 [(a, i), (b, j), (c, k), (PosInf, l)] = [p, q, r, (PosInf, l)] \<and>
           asc_key (fst p) \<le> asc_key (fst q) \<and> asc_key (fst q) \<le> asc_key (fst r)"
  by (auto simp: bitonic4_def cmp_exchange_def pad_top)

lemma net2:
  "a \<noteq> NaN \<Longrightarrow> b \<noteq> NaN \<Longrightarrow>
   \<exists>p q. bitonic4 [(a, i), (b, j), (PosInf, k), (PosInf, l)] = [p, q, (PosInf, k), (PosInf, l)] \<and>
           asc_key (fst p) \<le> asc_key (fst q)"
  by (auto simp: bitonic4_def cmp_exchange_def pad_top)

lemma net1:
  "a \<noteq> NaN \<Longrightarrow>
   bitonic4 [(a, i), (PosInf, j), (PosInf, k), (PosInf, l)] =
     [(a, i), (PosInf, j), (PosInf, k), (PosInf, l)]"
  by (auto simp: bitonic4_def cmp_exchange_def pad_top)

lemma net0:
  "bitonic4 [(PosInf, i), (PosInf, j), (PosInf, k), (PosInf, l)] =
     [(PosInf, i), (PosInf, j), (PosInf, k), (PosInf, l)]"
  by (auto simp: bitonic4_def cmp_exchange_def)

lemma short_list:
  "length ks \<le> 4 \<Longrightarrow>
   ks = [] \<or> (\<exists>a. ks = [a]) \<or> (\<exists>a b. ks = [a, b]) \<or> (\<exists>a b c. ks = [a, b, c]) \<or>
   (\<exists>a b c d. ks = [a, b, c, d])"
  by (cases ks; simp; cases "tl ks"; simp; cases "tl (tl ks)"; simp; cases "tl (tl (tl ks))"; simp;
      cases "tl (tl (tl (tl ks)))"; auto)

lemma lanes_valid:
  assumes "mset lanes = mset (zip ks [0..<length ks])"
    and "sorted (map (\<lambda>p. asc_key (fst p)) lanes)"
  shows "mset (map snd lanes) = mset [0..<length ks] \<and>
         sorted (map (\<lambda>i. asc_key (ks ! i)) (map snd lanes))"
proof
  have "mset (map snd lanes) = mset (map snd (zip ks [0..<length ks]))"
    by (rule mset_map_cong[OF assms(1)])
  then show "mset (map snd lanes) = mset [0..<length ks]" by simp
  have "set lanes = set (zip ks [0..<length ks])" using assms(1) by (rule mset_eq_setD)
  then have "\<forall>p \<in> set lanes. fst p = ks ! snd p"
    by (auto simp: set_zip)
  then have eq: "map (\<lambda>i. asc_key (ks ! i)) (map snd lanes) = map (\<lambda>p. asc_key (fst p)) lanes"
    unfolding map_map comp_def by (intro map_cong) auto
  show "sorted (map (\<lambda>i. asc_key (ks ! i)) (map snd lanes))"
    unfolding eq by (rule assms(2))
qed

lemma upt4: "[0..<4] = [0, 1, 2, 3]" "[0..<3] = [0, 1, 2]" "[0..<2] = [0, 1]" "[0..<1] = [0]"
  by (simp_all add: upt_rec)

lemma valid_argsort_simd: "valid_argsort argsort_simd"
  unfolding valid_argsort_def
proof (intro allI impI)
  fix ks :: "float64 list" assume nn: "NaN \<notin> set ks"
  show "mset (argsort_simd ks) = mset [0..<length ks] \<and>
        sorted (map (\<lambda>i. asc_key (ks ! i)) (argsort_simd ks))"
  proof (cases "length ks \<le> 4")
    case False
    then have "argsort_simd ks = argsort_insertion ks" by (simp add: argsort_simd_def)
    with valid_argsort_insertion nn show ?thesis by (simp add: valid_argsort_def)
  next
    case True
    have "\<exists>lanes. argsort_simd ks = map snd lanes \<and> mset lanes = mset (zip ks [0..<length ks]) \<and>
            sorted (map (\<lambda>p. asc_key (fst p)) lanes)"
      using short_list[OF True]
    proof (elim disjE exE)
      assume "ks = []"
      then show ?thesis by (simp add: argsort_simd_def)
    next
      fix a assume ks: "ks = [a]"
      with nn have "a \<noteq> NaN" by auto
      from net1[OF this, of 0 1 2 3] show ?thesis
        by (intro exI[of _ "[(a, 0)]"]) (simp add: ks argsort_simd_def upt4 numeral_eq_Suc)
    next
      fix a b assume ks: "ks = [a, b]"
      with nn have "a \<noteq> NaN" "b \<noteq> NaN" by auto
      from net2[OF this, of 0 1 2 3] obtain p q where
        e: "bitonic4 [(a, 0), (b, 1), (PosInf, 2), (PosInf, 3)] = [p, q, (PosInf, 2), (PosInf, 3)]"
        and s: "asc_key (fst p) \<le> asc_key (fst q)" by blast
      from bitonic4_mset[of "[(a, 0), (b, 1), (PosInf, 2), (PosInf, 3)]"] e
      have m: "mset [p, q] = mset [(a, 0), (b, 1)]" by (simp add: add_mset_commute)
      have "argsort_simd ks = map snd [p, q]"
        using e by (simp add: ks argsort_simd_def upt4 numeral_eq_Suc)
      moreover have "zip ks [0..<length ks] = [(a, 0), (b, 1)]" by (simp add: ks upt_rec)
      moreover have "sorted (map (\<lambda>p. asc_key (fst p)) [p, q])"
        unfolding list.map sorted2 using s by simp
      ultimately show ?thesis using m by (intro exI[of _ "[p, q]"]) simp
    next
      fix a b c assume ks: "ks = [a, b, c]"
      with nn have "a \<noteq> NaN" "b \<noteq> NaN" "c \<noteq> NaN" by auto
      from net3[OF this, of 0 1 2 3] obtain p q r where
        e: "bitonic4 [(a, 0), (b, 1), (c, 2), (PosInf, 3)] = [p, q, r, (PosInf, 3)]"
        and s: "asc_key (fst p) \<le> asc_key (fst q)" "asc_key (fst q) \<le> asc_key (fst r)" by blast
      from bitonic4_mset[of "[(a, 0), (b, 1), (c, 2), (PosInf, 3)]"] e
      have m: "mset [p, q, r] = mset [(a, 0), (b, 1), (c, 2)]" by (simp add: add_mset_commute)
      have "argsort_simd ks = map snd [p, q, r]"
        using e by (simp add: ks argsort_simd_def upt4 numeral_eq_Suc)
      moreover have "zip ks [0..<length ks] = [(a, 0), (b, 1), (c, 2)]" by (simp add: ks upt_rec)
      moreover have "sorted (map (\<lambda>p. asc_key (fst p)) [p, q, r])"
        unfolding list.map sorted2 using s by simp
      ultimately show ?thesis using m by (intro exI[of _ "[p, q, r]"]) simp
    next
      fix a b c d assume ks: "ks = [a, b, c, d]"
      from net4[of a 0 b 1 c 2 d 3] obtain p q r s where
        e: "bitonic4 [(a, 0), (b, 1), (c, 2), (d, 3)] = [p, q, r, s]"
        and s: "asc_key (fst p) \<le> asc_key (fst q)" "asc_key (fst q) \<le> asc_key (fst r)"
               "asc_key (fst r) \<le> asc_key (fst s)" by blast
      from bitonic4_mset[of "[(a, 0), (b, 1), (c, 2), (d, 3)]"] e
      have m: "mset [p, q, r, s] = mset [(a, 0), (b, 1), (c, 2), (d, 3)]" by (simp add: add_mset_commute)
      have "argsort_simd ks = map snd [p, q, r, s]"
        using e by (simp add: ks argsort_simd_def upt4)
      moreover have "zip ks [0..<length ks] = [(a, 0), (b, 1), (c, 2), (d, 3)]"
        by (simp add: ks upt_rec)
      moreover have "sorted (map (\<lambda>p. asc_key (fst p)) [p, q, r, s])"
        unfolding list.map sorted2 using s by simp
      ultimately show ?thesis using m by (intro exI[of _ "[p, q, r, s]"]) simp
    qed
    then obtain lanes where l: "argsort_simd ks = map snd lanes"
      "mset lanes = mset (zip ks [0..<length ks])" "sorted (map (\<lambda>p. asc_key (fst p)) lanes)"
      by blast
    from lanes_valid[OF l(2,3)] show ?thesis by (simp only: l(1))
  qed
qed

section \<open>The Top-N table on the examples\<close>

lemma tie_keys: "desc_key (Fin (17 / 2)) = (1, - (17 / 2))" "asc_key (Fin (17 / 2)) = (1, 17 / 2)"
  by (simp_all add: desc_key_def asc_key_def)

lemma tie_insertion: "top5 pandas_insertion tie_table =
   [(Some (py ''First''), Fin (17 / 2), Some 2000), (Some (py ''Second''), Fin (17 / 2), Some 2001)]"
  by (simp add: top5_def sort_values_desc_def nargsort_desc_def tie_table_def pandas_insertion_def
      argsort_insertion_def tie_keys project3_def)

lemma tie_cleaned: "load_and_clean L fs_tie ''movies.csv'' = Inr tie_table"
  by (simp add: load_and_clean_def read_csv_def fs_tie_def clean_def before_clip_def
        canonical_header canonical_select cell_at_def to_numeric_def castable_def the_year_def
        cast_error_def cast_int coerce_row_def astype_str_def strips dropna_def notna_def
        clip_rating_def clip_def tie_table_def)

lemma four_cleaned: "load_and_clean L fs_four ''movies.csv'' = Inr [north, south, east, west]"
  by (simp add: load_and_clean_def read_csv_def fs_four_def clean_def before_clip_def
        canonical_header canonical_select cell_at_def to_numeric_def castable_def the_year_def
        cast_error_def cast_int coerce_row_def astype_str_def strips dropna_def notna_def
        clip_rating_def clip_def north_def south_def east_def west_def)

lemma four_ratings:
  "map Rating [north, south, east, west] = [Fin (15 / 2), Fin (15 / 2), Fin (19 / 2), Fin (19 / 2)]"
  by (simp add: north_def south_def east_def west_def)

text \<open>
  The network on the reversed Ratings 9.5, 9.5, 7.5, 7.5: the compare-exchanges of the
  lanes (0,3) and (1,2) swap, the others find equal values and leave them.
\<close>

lemma four_argsort:
  "argsort_simd [Fin (19 / 2), Fin (19 / 2), Fin (15 / 2), Fin (15 / 2)] = [3, 2, 1, 0]"
  by (simp add: argsort_simd_def bitonic4_def cmp_exchange_def asc_key_def upt_rec)

lemma four_nargsort:
  "nargsort_desc pandas_simd [Fin (15 / 2), Fin (15 / 2), Fin (19 / 2), Fin (19 / 2)] = [3, 2, 1, 0]"
  by (simp add: nargsort_desc_def pandas_simd_def four_argsort upt_rec)

lemma four_simd:
  "top5 pandas_simd [north, south, east, west] = map project3 [west, east, south, north]"
  unfolding top5_def sort_values_desc_def four_ratings four_nargsort by simp

lemma four_stable:
  "stable_sort_desc [north, south, east, west] = [east, west, north, south]"
  by (simp add: stable_sort_desc_def desc_key_def north_def south_def east_def west_def)

text \<open>
  C3 as stated fails: \<open>sort_values\<close> is called with the default
  \<open>kind="quicksort"\<close>, which is not stable. On the file of four rows North 7.5,
  South 7.5, East 9.5, West 9.5, with numpy's vectorised \<open>argsort\<close>, the Top-N table is
  West, East, South, North; the stable sort gives East, West, North, South.
\<close>

theorem top5_not_stable:
  "valid_argsort (argsort pandas_simd) \<and>
   load_and_clean pandas_simd fs_four ''movies.csv'' = Inr [north, south, east, west] \<and>
   top5 pandas_simd [north, south, east, west] = map project3 [west, east, south, north] \<and>
   map project3 (take 5 (stable_sort_desc [north, south, east, west])) =
     map project3 [east, west, north, south] \<and>
   top5 pandas_simd [north, south, east, west] \<noteq>
     map project3 (take 5 (stable_sort_desc [north, south, east, west]))"
proof (intro conjI)
  show "valid_argsort (argsort pandas_simd)"
    by (simp add: pandas_simd_def valid_argsort_simd)
  show "load_and_clean pandas_simd fs_four ''movies.csv'' = Inr [north, south, east, west]"
    by (rule four_cleaned)
  show "top5 pandas_simd [north, south, east, west] = map project3 [west, east, south, north]"
    by (rule four_simd)
  show "map project3 (take 5 (stable_sort_desc [north, south, east, west])) =
     map project3 [east, west, north, south]"
    by (simp add: four_stable)
  show "top5 pandas_simd [north, south, east, west] \<noteq>
     map project3 (take 5 (stable_sort_desc [north, south, east, west]))"
    unfolding four_simd four_stable
    by (simp add: project3_def north_def south_def east_def west_def py_eq)
qed

theorem top5_rows_witness:
  "valid_argsort (argsort pandas_insertion) \<and>
   top5 pandas_insertion tie_table = [(Some (py ''First''), Fin (17 / 2), Some 2000), (Some (py ''Second''), Fin (17 / 2), Some 2001)] \<and>
   length (top5 pandas_insertion tie_table) = min 5 (length tie_table) \<and>
   (\<exists>s. mset s = mset tie_table \<and> top5 pandas_insertion tie_table = map project3 (take 5 s)) \<and>
   map (\<lambda>r. fst (snd r)) (top5 pandas_insertion tie_table) = map Rating (take 5 (stable_sort_desc tie_table)) \<and>
   sorted (map (\<lambda>r. desc_key (fst (snd r))) (top5 pandas_insertion tie_table))"
proof -
  have v: "valid_argsort (argsort pandas_insertion)"
    by (simp add: pandas_insertion_def valid_argsort_insertion)
  show ?thesis using v top5_rows[OF v, of tie_table] tie_insertion by blast
qed

section \<open>The Genre aggregate\<close>

text \<open>
  What can be said of the Genre aggregate without float64 arithmetic: for a cleaned
  table and an \<open>argsort\<close> that meets numpy's contract, it has each genre once, its
  genres are the genre tokens of the cleaned records, the Rating of a row is the value
  that pandas' mean gives for the Ratings of the exploded records of its genre, and the
  rows descend by that value. That this value is the arithmetic mean up to float64
  rounding is a property of \<open>group_mean\<close>, which the model does not define.
\<close>

lemma genre_avg_genres:
  assumes "valid_argsort (argsort L)" and "load_and_clean L fs path = Inr df"
  shows "distinct (map fst (genre_avg L (explode_genres L df))) \<and>
         set (map fst (genre_avg L (explode_genres L df))) =
           {t. \<exists>m \<in> set df. \<exists>g. Genre m = Some g \<and> t \<in> set (genre_tokens g)} \<and>
         (\<forall>r \<in> set (genre_avg L (explode_genres L df)).
            snd r = group_mean L (map Rating (filter (\<lambda>e. Genre e = Some (fst r))
                                                (explode_genres L df)))) \<and>
         sorted (map (\<lambda>r. desc_key (snd r)) (genre_avg L (explode_genres L df)))"
proof -
  define ex where "ex = explode_genres L df"
  define keys where "keys = group_keys (map Genre ex)"
  define row where "row = (\<lambda>g. (g, group_mean L (map Rating (filter (\<lambda>m. Genre m = Some g) ex))))"
  define ga where "ga = genre_avg L ex"
  have present: "\<forall>m \<in> set df. Genre m \<noteq> None"
    using cleaned_row[OF assms(2)] by fastforce
  have ms: "mset ga = mset (map row keys)"
    unfolding ga_def keys_def row_def genre_avg_def by (rule sort_values_desc_mset[OF assms(1)])
  have keys_set: "set keys = {t. \<exists>m \<in> set df. \<exists>g. Genre m = Some g \<and> t \<in> set (genre_tokens g)}"
    unfolding keys_def ex_def by (force simp: group_keys_props exploded_row[OF present])
  have "mset (map fst ga) = mset (map fst (map row keys))" by (rule mset_map_cong[OF ms])
  also have "\<dots> = mset keys" by (simp add: row_def comp_def)
  finally have mk: "mset (map fst ga) = mset keys" .
  have c1: "distinct (map fst ga)"
    using mk by (metis mset_eq_imp_distinct_iff group_keys_props(2) keys_def)
  have c2: "set (map fst ga) = {t. \<exists>m \<in> set df. \<exists>g. Genre m = Some g \<and> t \<in> set (genre_tokens g)}"
    using mk keys_set by (metis mset_eq_setD)
  have c3: "\<forall>r \<in> set ga. snd r = group_mean L (map Rating (filter (\<lambda>e. Genre e = Some (fst r)) ex))"
  proof
    fix r assume "r \<in> set ga"
    then have "r \<in> set (map row keys)" using ms by (metis mset_eq_setD)
    then show "snd r = group_mean L (map Rating (filter (\<lambda>e. Genre e = Some (fst r)) ex))"
      by (auto simp: row_def)
  qed
  have c4: "sorted (map (\<lambda>r. desc_key (snd r)) ga)"
    unfolding ga_def genre_avg_def by (rule sort_values_desc_sorted[OF assms(1)])
  from c1 c2 c3 c4 show ?thesis unfolding ga_def ex_def by blast
qed

section \<open>Running the pipeline twice\<close>

lemma bind_Inr: "bind x f = Inr y \<longleftrightarrow> (\<exists>v. x = Inr v \<and> f v = Inr y)"
  by (cases x) (auto simp: bind_def)

lemma to_csv_Inr:
  "to_csv fs p c r = Inr fs' \<longleftrightarrow>
     parent_is_dir fs p \<and> fs p \<noteq> Some Dir \<and> fs' = fs(p \<mapsto> File (Table c r))"
  by (auto simp: to_csv_def split: option.splits entry.splits)

lemma savefig_Inr:
  "savefig fs p xs hs = Inr fs' \<longleftrightarrow>
     parent_is_dir fs p \<and> fs p \<noteq> Some Dir \<and> fs' = fs(p \<mapsto> File (Chart xs hs))"
  by (auto simp: savefig_def split: option.splits entry.splits)

lemma chart_genre_Inr:
  "chart_avg_rating_by_genre L fs expd p = Inr v \<longleftrightarrow>
     (\<exists>fs'. savefig fs p (map fst (genre_avg L expd)) (map snd (genre_avg L expd)) = Inr fs'
            \<and> v = (fs', genre_avg L expd))"
  by (auto simp: chart_avg_rating_by_genre_def Let_def split: sum.splits)

lemma chart_year_Inr:
  "chart_movies_per_year L fs df p = Inr v \<longleftrightarrow>
     (\<exists>fs'. savefig fs p (map (\<lambda>r. num_str L (IntC (fst r))) (per_year df))
                (map (\<lambda>r. Fin (of_nat (snd r))) (per_year df)) = Inr fs'
            \<and> v = (fs', per_year df))"
  by (auto simp: chart_movies_per_year_def Let_def split: sum.splits)

lemma ancestors_OK: "ancestors OK = []"
  by (simp add: ancestors_def OK_def upt_rec)

lemma makedirs_Inr:
  "makedirs fs OK = Inr fs' \<Longrightarrow> fs' OK = Some Dir \<and> (\<forall>q. q \<noteq> OK \<longrightarrow> fs' q = fs q)"
  by (auto simp: makedirs_def ancestors_OK split: option.splits entry.splits if_splits)

lemma parent_of_output:
  "parent_is_dir fs (join OK ''avg_rating_by_genre.png'') \<longleftrightarrow> fs OK = Some Dir"
  "parent_is_dir fs (join OK ''movies_per_year.png'') \<longleftrightarrow> fs OK = Some Dir"
  "parent_is_dir fs (join OK ''Details_movies.csv'') \<longleftrightarrow> fs OK = Some Dir"
  "parent_is_dir fs (join OK ''genre_avg_ratings.csv'') \<longleftrightarrow> fs OK = Some Dir"
  "parent_is_dir fs (join OK ''top5_movies.csv'') \<longleftrightarrow> fs OK = Some Dir"
  "parent_is_dir fs (join OK ''movies_per_year.csv'') \<longleftrightarrow> fs OK = Some Dir"
  by (simp_all add: parent_is_dir_def dirname_def join_def OK_def)

lemma ensure_dataset_Inr:
  "ensure_dataset fs p = Inr fs' \<Longrightarrow> fs' p \<noteq> None \<and> (\<forall>q. q \<noteq> p \<longrightarrow> fs' q = fs q)"
  by (auto simp: ensure_dataset_def exists_def to_csv_def split: if_splits option.splits entry.splits)

lemma load_and_clean_cong:
  "fs p = fs' p \<Longrightarrow> load_and_clean L fs p = load_and_clean L fs' p"
  by (simp add: load_and_clean_def read_csv_def)

lemma paths_distinct:
  "distinct [OK, DATA_PATH, join OK ''avg_rating_by_genre.png'', join OK ''movies_per_year.png'',
     join OK ''Details_movies.csv'', join OK ''genre_avg_ratings.csv'', join OK ''top5_movies.csv'',
     join OK ''movies_per_year.csv'']"
  by (simp add: OK_def DATA_PATH_def join_def)

lemma main_final_state:
  assumes "main L fs = Inr fs'"
  shows "\<exists>df. final_state L fs' df"
proof -
  from assms obtain fs1 fs2 df where
    s1: "makedirs fs OK = Inr fs1" and
    s2: "ensure_dataset fs1 DATA_PATH = Inr fs2" and
    s3: "load_and_clean L fs2 DATA_PATH = Inr df" and
    s9: "fs' = fs2(join OK ''avg_rating_by_genre.png'' \<mapsto>
            File (Chart (map fst (genre_avg L (explode_genres L df)))
                         (map snd (genre_avg L (explode_genres L df)))),
          join OK ''movies_per_year.png'' \<mapsto>
            File (Chart (map (\<lambda>r. num_str L (IntC (fst r))) (per_year df))
                         (map (\<lambda>r. Fin (of_nat (snd r))) (per_year df))),
          join OK ''Details_movies.csv'' \<mapsto>
            File (Table canonical (map movie_cells df)),
          join OK ''genre_avg_ratings.csv'' \<mapsto>
            File (Table [py ''Genre'', py ''Rating''] (map genre_cells (genre_avg L (explode_genres L df)))),
          join OK ''top5_movies.csv'' \<mapsto>
            File (Table [py ''Title'', py ''Rating'', py ''Year''] (map top5_cells (top5 L df))),
          join OK ''movies_per_year.csv'' \<mapsto>
            File (Table [py ''Year'', py ''Count''] (map year_cells (per_year df))))"
    by (auto simp: main_def bind_Inr Let_def chart_genre_Inr chart_year_Inr to_csv_Inr savefig_Inr)
  from makedirs_Inr[OF s1] have ok1: "fs1 OK = Some Dir" by blast
  from ensure_dataset_Inr[OF s2] paths_distinct have ok2: "fs2 OK = fs1 OK"
    by (metis distinct_length_2_or_more)
  have d: "fs' DATA_PATH = fs2 DATA_PATH" "fs' OK = fs2 OK"
    using paths_distinct unfolding s9 by auto
  have "load_and_clean L fs' DATA_PATH = Inr df"
    using load_and_clean_cong[of fs' DATA_PATH fs2 L, OF d(1)] s3 by simp
  moreover have "fs' OK = Some Dir" using d(2) ok2 ok1 by simp
  ultimately show ?thesis
    unfolding final_state_def
    using paths_distinct unfolding s9 by (intro exI[of _ df]) auto
qed

lemma bind_Inr_left: "bind (Inr v) f = f v"
  by (simp add: bind_def)

lemma final_state_rerun:
  assumes "final_state L fs df"
  shows "main L fs = Inr fs"
proof -
  from assms have f: "load_and_clean L fs DATA_PATH = Inr df" "fs OK = Some Dir"
    unfolding final_state_def by blast+
  from f(1) have ex: "exists fs DATA_PATH"
    by (auto simp: load_and_clean_def read_csv_def exists_def split: option.splits)
  have m: "makedirs fs OK = Inr fs"
    by (simp add: makedirs_def ancestors_OK f(2) fun_upd_idem_iff)
  have e: "ensure_dataset fs DATA_PATH = Inr fs" by (simp add: ensure_dataset_def ex)
  have c1: "chart_avg_rating_by_genre L fs (explode_genres L df) (join OK ''avg_rating_by_genre.png'')
              = Inr (fs, genre_avg L (explode_genres L df))"
    using assms unfolding final_state_def
    by (simp add: chart_avg_rating_by_genre_def savefig_def Let_def fun_upd_idem_iff parent_of_output)
  have c2: "chart_movies_per_year L fs df (join OK ''movies_per_year.png'') = Inr (fs, per_year df)"
    using assms unfolding final_state_def
    by (simp add: chart_movies_per_year_def savefig_def Let_def fun_upd_idem_iff parent_of_output)
  have t1: "to_csv fs (join OK ''Details_movies.csv'') canonical
              (map movie_cells df) = Inr fs"
    using assms unfolding final_state_def by (simp add: to_csv_def fun_upd_idem_iff parent_of_output)
  have t2: "to_csv fs (join OK ''genre_avg_ratings.csv'') [py ''Genre'', py ''Rating'']
              (map genre_cells (genre_avg L (explode_genres L df))) = Inr fs"
    using assms unfolding final_state_def by (simp add: to_csv_def fun_upd_idem_iff parent_of_output)
  have t3: "to_csv fs (join OK ''top5_movies.csv'') [py ''Title'', py ''Rating'', py ''Year'']
              (map top5_cells (top5 L df)) = Inr fs"
    using assms unfolding final_state_def by (simp add: to_csv_def fun_upd_idem_iff parent_of_output)
  have t4: "to_csv fs (join OK ''movies_per_year.csv'') [py ''Year'', py ''Count'']
              (map year_cells (per_year df)) = Inr fs"
    using assms unfolding final_state_def by (simp add: to_csv_def fun_upd_idem_iff parent_of_output)
  show ?thesis
    unfolding main_def
    by (simp only: m e f(1) c1 c2 t1 t2 t3 t4 bind_Inr_left Let_def prod.case)
qed

lemma final_state_unique:
  assumes "final_state L fs df" and "final_state L fsB dfB" and "fsB DATA_PATH = fs DATA_PATH"
  shows "\<forall>p \<in> set csv_outputs. fsB p = fs p"
proof -
  have "load_and_clean L fsB DATA_PATH = load_and_clean L fs DATA_PATH"
    by (rule load_and_clean_cong[of fsB DATA_PATH fs L, OF assms(3)])
  with assms(1,2) have "dfB = df" unfolding final_state_def by simp
  with assms(1,2) show ?thesis unfolding final_state_def csv_outputs_def by simp
qed

text \<open>
  C9: after a run that succeeds, a second run on the file system the first one left
  succeeds and leaves the four delimited text files as they are; and any two runs that
  succeed and saw the same input file write the same four delimited text files. The library functions are
  functions of their arguments; a file stands for the table it holds.
\<close>

theorem pipeline_rerun:
  assumes "main L fs = Inr fs'"
  shows "(\<exists>fs''. main L fs' = Inr fs'' \<and> (\<forall>p \<in> set csv_outputs. fs'' p = fs' p)) \<and>
         (\<forall>fsB fsB'. main L fsB = Inr fsB' \<and> fsB' DATA_PATH = fs' DATA_PATH \<longrightarrow>
            (\<forall>p \<in> set csv_outputs. fsB' p = fs' p))"
proof -
  from main_final_state[OF assms] obtain df where df: "final_state L fs' df" ..
  have "main L fs' = Inr fs'" by (rule final_state_rerun[OF df])
  then have "\<exists>fs''. main L fs' = Inr fs'' \<and> (\<forall>p \<in> set csv_outputs. fs'' p = fs' p)"
    by blast
  moreover have "\<forall>p \<in> set csv_outputs. fsB' p = fs' p"
    if "main L fsB = Inr fsB'" "fsB' DATA_PATH = fs' DATA_PATH" for fsB fsB'
  proof -
    from main_final_state[OF that(1)] obtain dfB where "final_state L fsB' dfB" ..
    from final_state_unique[OF df this that(2)] show ?thesis .
  qed
  ultimately show ?thesis by blast
qed

lemma tie_group_keys: "group_keys [Some (py ''Drama''), Some (py ''Drama'')] = [py ''Drama'']"
  by (simp add: group_keys_def)

lemma tie_year_labels:
  "show_num (IntC 2000) = py ''2000''" "show_num (IntC 2001) = py ''2001''"
  by (simp_all add: show_num_def py_def)

lemma tie_exploded: "explode_genres pandas_insertion tie_table = tie_table"
proof -
  have "\<forall>m \<in> set tie_table. Genre m \<noteq> None" by (simp add: tie_table_def)
  from explode_genres_present[OF this] show ?thesis
    by (simp add: tie_table_def example_tokens)
qed

lemma tie_genre_avg: "genre_avg pandas_insertion tie_table = [(py ''Drama'', Fin (17 / 2))]"
  by (simp add: genre_avg_def tie_table_def tie_group_keys mean_exact_def
        sort_values_desc_def nargsort_desc_def pandas_insertion_def argsort_insertion_def)

lemma tie_per_year: "per_year tie_table = [(2000, 1), (2001, 1)]"
  by (simp add: per_year_def group_keys_def tie_table_def)

lemma tie_details:
  "map movie_cells tie_table =
     [[Str (py ''First''), Str (py ''Drama''), Flt (Fin (17 / 2)), IntC 2000],
      [Str (py ''Second''), Str (py ''Drama''), Flt (Fin (17 / 2)), IntC 2001]]"
  by (simp add: tie_table_def movie_cells_def obj_cell_def Int64_cell_def)

lemma tie_main: "main pandas_insertion fs_tie = Inr fs_tie_after"
proof -
  have m: "makedirs fs_tie OK = Inr (fs_tie(''ok'' \<mapsto> Dir))"
    by (simp add: makedirs_def ancestors_OK fs_tie_def) (simp add: OK_def)
  have e: "ensure_dataset (fs_tie(''ok'' \<mapsto> Dir)) DATA_PATH = Inr (fs_tie(''ok'' \<mapsto> Dir))"
    by (simp add: ensure_dataset_def exists_def fs_tie_def DATA_PATH_def)
  have l: "load_and_clean pandas_insertion (fs_tie(''ok'' \<mapsto> Dir)) DATA_PATH = Inr tie_table"
    using load_and_clean_cong[of "fs_tie(''ok'' \<mapsto> Dir)" DATA_PATH fs_tie pandas_insertion]
      tie_cleaned[of pandas_insertion]
    by (simp add: DATA_PATH_def)
  have n: "num_str pandas_insertion = show_num" by (simp add: pandas_insertion_def)
  have p: "\<And>fs x. parent_is_dir fs (''ok/'' @ x) = (dirname (''ok/'' @ x) = [] \<or> fs (dirname (''ok/'' @ x)) = Some Dir)"
    by (simp add: parent_is_dir_def)
  show ?thesis
    unfolding main_def m bind_Inr_left e l tie_exploded Let_def
    by (simp add: chart_avg_rating_by_genre_def chart_movies_per_year_def tie_genre_avg
          tie_per_year tie_insertion savefig_def to_csv_def fs_tie_def bind_def OK_def join_def
          n tie_year_labels fs_tie_after_def tie_details genre_cells_def top5_cells_def
          year_cells_def obj_cell_def Int64_cell_def parent_is_dir_def dirname_def)
qed

theorem pipeline_rerun_witness:
  "main pandas_insertion fs_tie = Inr fs_tie_after \<and>
   (\<exists>fs''. main pandas_insertion fs_tie_after = Inr fs'' \<and>
      (\<forall>p \<in> set csv_outputs. fs'' p = fs_tie_after p))"
  using tie_main pipeline_rerun[OF tie_main] by blast

end
